theory Spec2Isabelle
  imports Main "HOL-Library.Word"
begin

unbundle bit_operations_syntax

text \<open>
  A model of the compositor backend abstraction layer of NeoWall: the classifier that
  names the running compositor, the registry of backends, the selector with its fallback,
  the public entry points of \<open>compositor_registry.c\<close>, and the output detection and surface
  operations of the X11 backend. Each C function is a HOL function of the same name;
  what a C function reads from its surroundings (the process environment, the Wayland
  and X servers, the allocator) is an explicit argument, what it changes is part of its
  result, and null pointers are \<open>None\<close>. Line numbers refer to the C file named in the
  section heading.
\<close>

section \<open>Compositor detection (compositor\_registry.c)\<close>

subsection \<open>Data model (compositor.h)\<close>

text \<open>The enumeration \<open>compositor_type_t\<close>, in the order of the header.\<close>

datatype compositor_type_t =
    COMPOSITOR_TYPE_UNKNOWN
  | COMPOSITOR_TYPE_HYPRLAND
  | COMPOSITOR_TYPE_SWAY
  | COMPOSITOR_TYPE_RIVER
  | COMPOSITOR_TYPE_WAYFIRE
  | COMPOSITOR_TYPE_KDE_PLASMA
  | COMPOSITOR_TYPE_GNOME_SHELL
  | COMPOSITOR_TYPE_MUTTER
  | COMPOSITOR_TYPE_WESTON
  | COMPOSITOR_TYPE_GENERIC

text \<open>
  \<open>protocol_state_t\<close>: one flag per watched Wayland global. The field
  \<open>compositor_name\<close> of the C struct is zero-initialised and never written or read by the
  functions modelled here; it is kept as the empty string.
\<close>

record protocol_state_t =
  has_layer_shell :: bool
  has_kde_shell :: bool
  has_gtk_shell :: bool
  has_viewporter :: bool
  compositor_name :: string

text \<open>
  The process environment as far as \<open>detect_compositor_type\<close> reads it. Each field is the
  result of one \<open>getenv\<close> call: \<open>None\<close> is the null pointer (variable unset), \<open>Some s\<close> a
  set variable (possibly the empty string).
\<close>

record environment =
  XDG_CURRENT_DESKTOP :: "string option"
  XDG_SESSION_DESKTOP :: "string option"
  WAYLAND_DISPLAY :: "string option"
  SWAYSOCK :: "string option"

subsection \<open>String search\<close>

text \<open>\<open>starts_with hay needle\<close>: the bytes of \<open>needle\<close> are an initial segment of \<open>hay\<close>.\<close>

fun starts_with :: "string \<Rightarrow> string \<Rightarrow> bool" where
  "starts_with hay [] = True"
| "starts_with [] (n # ns) = False"
| "starts_with (h # hs) (n # ns) = (h = n \<and> starts_with hs ns)"

text \<open>
  C's \<open>strstr(hay, needle)\<close>, read as a truth value (a non-null result): \<open>needle\<close> occurs
  somewhere in \<open>hay\<close>.
\<close>

fun strstr :: "string \<Rightarrow> string \<Rightarrow> bool" where
  "strstr [] needle = (needle = [])"
| "strstr (h # hs) needle = (starts_with (h # hs) needle \<or> strstr hs needle)"

text \<open>The recurring test \<open>var && strstr(var, needle)\<close> on the result of a \<open>getenv\<close>.\<close>

definition hint :: "string option \<Rightarrow> string \<Rightarrow> bool" where
  "hint var needle = (case var of None \<Rightarrow> False | Some s \<Rightarrow> strstr s needle)"

subsection \<open>The classifier\<close>

text \<open>
  \<open>detect_compositor_type\<close> (lines 112--186): a chain of \<open>if (...) return ...;\<close>
  statements, kept in the order of the source. The environment is an explicit argument.
\<close>

definition detect_compositor_type :: "environment \<Rightarrow> protocol_state_t \<Rightarrow> compositor_type_t" where
  "detect_compositor_type env proto =
    (let desktop = XDG_CURRENT_DESKTOP env;
         session = XDG_SESSION_DESKTOP env;
         wayland_display = WAYLAND_DISPLAY env
     in
     if hint desktop ''Hyprland'' \<or> hint session ''Hyprland'' \<or> hint wayland_display ''hyprland''
       then COMPOSITOR_TYPE_HYPRLAND
     else if hint desktop ''sway'' \<or> hint session ''sway'' \<or> SWAYSOCK env \<noteq> None
       then COMPOSITOR_TYPE_SWAY
     else if hint desktop ''river'' \<or> hint session ''river''
       then COMPOSITOR_TYPE_RIVER
     else if hint desktop ''wayfire'' \<or> hint session ''wayfire''
       then COMPOSITOR_TYPE_WAYFIRE
     else if hint desktop ''KDE'' \<or> hint session ''plasma'' \<or> has_kde_shell proto
       then COMPOSITOR_TYPE_KDE_PLASMA
     else if hint desktop ''GNOME'' \<or> hint session ''gnome'' \<or> has_gtk_shell proto
       then COMPOSITOR_TYPE_GNOME_SHELL
     else if hint session ''mutter''
       then COMPOSITOR_TYPE_MUTTER
     else if hint desktop ''weston'' \<or> hint session ''weston''
       then COMPOSITOR_TYPE_WESTON
     else if has_layer_shell proto
       then COMPOSITOR_TYPE_GENERIC
     else COMPOSITOR_TYPE_UNKNOWN)"

text \<open>
  The identity named by the environment alone, following the specification's wording
  (section 4.2): the environment tests of the decision list, first match wins, with no
  protocol flag consulted. \<open>None\<close> means that no environment hint matches any known
  compositor. This definition is the specification's side of the comparison with
  \<open>detect_compositor_type\<close>.
\<close>

definition spec_environment_identity :: "environment \<Rightarrow> compositor_type_t option" where
  "spec_environment_identity env =
    (let desktop = XDG_CURRENT_DESKTOP env;
         session = XDG_SESSION_DESKTOP env;
         wayland_display = WAYLAND_DISPLAY env
     in
     if hint desktop ''Hyprland'' \<or> hint session ''Hyprland'' \<or> hint wayland_display ''hyprland''
       then Some COMPOSITOR_TYPE_HYPRLAND
     else if hint desktop ''sway'' \<or> hint session ''sway'' \<or> SWAYSOCK env \<noteq> None
       then Some COMPOSITOR_TYPE_SWAY
     else if hint desktop ''river'' \<or> hint session ''river''
       then Some COMPOSITOR_TYPE_RIVER
     else if hint desktop ''wayfire'' \<or> hint session ''wayfire''
       then Some COMPOSITOR_TYPE_WAYFIRE
     else if hint desktop ''KDE'' \<or> hint session ''plasma''
       then Some COMPOSITOR_TYPE_KDE_PLASMA
     else if hint desktop ''GNOME'' \<or> hint session ''gnome''
       then Some COMPOSITOR_TYPE_GNOME_SHELL
     else if hint session ''mutter''
       then Some COMPOSITOR_TYPE_MUTTER
     else if hint desktop ''weston'' \<or> hint session ''weston''
       then Some COMPOSITOR_TYPE_WESTON
     else None)"

text \<open>
  The identity that the protocol flags alone indicate: the flag tests of the decision list
  in their order.
\<close>

definition spec_protocol_identity :: "protocol_state_t \<Rightarrow> compositor_type_t" where
  "spec_protocol_identity proto =
    (if has_kde_shell proto then COMPOSITOR_TYPE_KDE_PLASMA
     else if has_gtk_shell proto then COMPOSITOR_TYPE_GNOME_SHELL
     else if has_layer_shell proto then COMPOSITOR_TYPE_GENERIC
     else COMPOSITOR_TYPE_UNKNOWN)"

text \<open>An environment with none of the variables set.\<close>

definition env_unset :: environment where
  "env_unset = \<lparr>XDG_CURRENT_DESKTOP = None, XDG_SESSION_DESKTOP = None,
                 WAYLAND_DISPLAY = None, SWAYSOCK = None\<rparr>"

text \<open>The zero-initialised \<open>protocol_state_t\<close> (\<open>protocol_state_t state = {0}\<close>, line 93).\<close>

definition proto_none :: protocol_state_t where
  "proto_none = \<lparr>has_layer_shell = False, has_kde_shell = False, has_gtk_shell = False,
                  has_viewporter = False, compositor_name = []\<rparr>"

section \<open>Backend registry and selection (compositor\_registry.c)\<close>

subsection \<open>Protocol detection and \<open>compositor_detect\<close>\<close>

text \<open>
  \<open>registry_handle_global\<close> (lines 54--76): called once per advertised global; only
  the interface name is inspected.
\<close>

definition registry_handle_global :: "protocol_state_t \<Rightarrow> string \<Rightarrow> protocol_state_t" where
  "registry_handle_global state interface =
    (if interface = ''zwlr_layer_shell_v1'' then state\<lparr>has_layer_shell := True\<rparr>
     else if interface = ''org_kde_plasma_shell'' then state\<lparr>has_kde_shell := True\<rparr>
     else if interface = ''gtk_shell1'' then state\<lparr>has_gtk_shell := True\<rparr>
     else if interface = ''wp_viewporter'' then state\<lparr>has_viewporter := True\<rparr>
     else state)"

text \<open>
  A Wayland display as far as \<open>detect_protocols\<close> observes it: \<open>None\<close> when
  \<open>wl_display_get_registry\<close> returns null, otherwise the interface names announced
  during the round trip, in order.
\<close>

record wl_display =
  registry_globals :: "string list option"

definition detect_protocols :: "wl_display \<Rightarrow> protocol_state_t" where
  "detect_protocols dpy =
    (case registry_globals dpy of
       None \<Rightarrow> proto_none
     | Some globals \<Rightarrow> foldl registry_handle_global proto_none globals)"

text \<open>
  \<open>compositor_info_t\<close>. The fields carry the prefix \<open>info_\<close> because the flag names are
  those of \<open>protocol_state_t\<close>.
\<close>

record compositor_info_t =
  info_type :: compositor_type_t
  info_name :: string
  info_version :: string
  info_has_layer_shell :: bool
  info_has_kde_shell :: bool
  info_has_gtk_shell :: bool

fun compositor_type_to_string :: "compositor_type_t \<Rightarrow> string" where
  "compositor_type_to_string COMPOSITOR_TYPE_HYPRLAND = ''Hyprland''"
| "compositor_type_to_string COMPOSITOR_TYPE_SWAY = ''Sway''"
| "compositor_type_to_string COMPOSITOR_TYPE_RIVER = ''River''"
| "compositor_type_to_string COMPOSITOR_TYPE_WAYFIRE = ''Wayfire''"
| "compositor_type_to_string COMPOSITOR_TYPE_KDE_PLASMA = ''KDE Plasma''"
| "compositor_type_to_string COMPOSITOR_TYPE_GNOME_SHELL = ''GNOME Shell''"
| "compositor_type_to_string COMPOSITOR_TYPE_MUTTER = ''Mutter''"
| "compositor_type_to_string COMPOSITOR_TYPE_WESTON = ''Weston''"
| "compositor_type_to_string COMPOSITOR_TYPE_GENERIC = ''Generic wlroots''"
| "compositor_type_to_string COMPOSITOR_TYPE_UNKNOWN = ''Unknown''"

text \<open>
  \<open>compositor_detect\<close> (lines 206--224). The second argument is the result of
  \<open>getenv("COMPOSITOR_VERSION")\<close>.
\<close>

definition compositor_detect ::
  "environment \<Rightarrow> string option \<Rightarrow> wl_display \<Rightarrow> compositor_info_t" where
  "compositor_detect env version dpy =
    (let proto = detect_protocols dpy;
         ty = detect_compositor_type env proto
     in \<lparr>info_type = ty,
         info_name = compositor_type_to_string ty,
         info_version = (case version of Some v \<Rightarrow> v | None \<Rightarrow> ''unknown''),
         info_has_layer_shell = has_layer_shell proto,
         info_has_kde_shell = has_kde_shell proto,
         info_has_gtk_shell = has_gtk_shell proto\<rparr>)"

subsection \<open>The registry\<close>

text \<open>
  \<open>compositor_capabilities_t\<close> is a bit mask; \<open>COMPOSITOR_CAP_NONE\<close> is 0 and
  \<open>COMPOSITOR_CAP_MULTI_OUTPUT\<close> is \<open>1 << 6\<close>.
\<close>

type_synonym compositor_capabilities_t = "32 word"

definition COMPOSITOR_CAP_NONE :: compositor_capabilities_t where
  "COMPOSITOR_CAP_NONE = 0"

definition COMPOSITOR_CAP_MULTI_OUTPUT :: compositor_capabilities_t where
  "COMPOSITOR_CAP_MULTI_OUTPUT = push_bit 6 1"

text \<open>
  The operation table \<open>compositor_backend_ops_t\<close>, restricted to the three operations
  that the registry code calls. \<open>'s\<close> is the global state (\<open>struct neowall_state\<close>), which
  \<open>init\<close> receives through a non-const pointer and may therefore change; \<open>'d\<close> is the
  backend's private data, with \<open>None\<close> for the null pointer that \<open>init\<close> returns on
  failure. \<open>cleanup\<close> may release resources reachable from the global state.
\<close>

record ('s, 'd) compositor_backend_ops =
  init :: "'s \<Rightarrow> 'd option \<times> 's"
  cleanup :: "'d \<Rightarrow> 's \<Rightarrow> 's"
  get_capabilities :: "'d \<Rightarrow> compositor_capabilities_t"

text \<open>
  One slot of \<open>backend_registry\<close> (lines 32--37). \<open>name\<close> and \<open>ops\<close> are non-null in every
  registered slot, because \<open>compositor_backend_register\<close> rejects null for both;
  \<open>description\<close> is stored unchecked.
\<close>

record ('s, 'd) backend_entry =
  name :: string
  description :: "string option"
  priority :: int
  ops :: "('s, 'd) compositor_backend_ops"

text \<open>
  The registry is the used part \<open>backend_registry[0 .. backend_count - 1]\<close> of the
  static array, as a list; \<open>backend_count\<close> is its length.
\<close>

type_synonym ('s, 'd) registry = "('s, 'd) backend_entry list"

definition MAX_BACKENDS :: nat where
  "MAX_BACKENDS = 16"

text \<open>
  \<open>struct compositor_backend\<close>: the four fields of the registry slot it is copied from,
  then \<open>data\<close> (a pointer, \<open>None\<close> when null) and the cached \<open>capabilities\<close>.
\<close>

record ('s, 'd) compositor_backend = "('s, 'd) backend_entry" +
  data :: "'d option"
  capabilities :: compositor_capabilities_t

text \<open>
  The three \<open>return false\<close> statements of \<open>compositor_backend_register\<close> are told apart by
  the error message logged just before each.
\<close>

datatype registration_error = RegistryFull | InvalidArgument | DuplicateName

text \<open>The duplicate check, lines 245--250: a loop over the used slots with \<open>strcmp\<close>.\<close>

fun already_registered :: "('s, 'd) registry \<Rightarrow> string \<Rightarrow> bool" where
  "already_registered [] nm = False"
| "already_registered (e # es) nm = (if name e = nm then True else already_registered es nm)"

text \<open>
  \<open>compositor_backend_register\<close> (lines 230--263). \<open>Inl e\<close> is \<open>return false\<close> after the
  message of \<open>e\<close>, \<open>Inr ()\<close> is \<open>return true\<close>; the second component is the registry
  afterwards. Null arguments are \<open>None\<close>.
\<close>

definition compositor_backend_register ::
  "string option \<Rightarrow> string option \<Rightarrow> int \<Rightarrow> ('s, 'd) compositor_backend_ops option
    \<Rightarrow> ('s, 'd) registry \<Rightarrow> (registration_error + unit) \<times> ('s, 'd) registry" where
  "compositor_backend_register nm descr prio ops_ptr reg =
    (if length reg \<ge> MAX_BACKENDS then (Inl RegistryFull, reg)
     else
       (case nm of
          None \<Rightarrow> (Inl InvalidArgument, reg)
        | Some n \<Rightarrow>
           (case ops_ptr of
              None \<Rightarrow> (Inl InvalidArgument, reg)
            | Some table \<Rightarrow>
               if already_registered reg n then (Inl DuplicateName, reg)
               else (Inr (),
                     reg @ [\<lparr>name = n, description = descr, priority = prio, ops = table\<rparr>]))))"

text \<open>The boolean that the C function returns.\<close>

definition register_succeeded :: "(registration_error + unit) \<times> ('s, 'd) registry \<Rightarrow> bool" where
  "register_succeeded r = (case fst r of Inl e \<Rightarrow> False | Inr u \<Rightarrow> True)"

text \<open>
  The source has no separate lookup function: a name is looked up by the search loops of
  \<open>select_backend\<close> (lines 311--312 and 345--346), which stop at the first slot whose
  name compares equal. \<open>lookup\<close> is that search on its own.
\<close>

fun lookup :: "('s, 'd) registry \<Rightarrow> string \<Rightarrow> ('s, 'd) backend_entry option" where
  "lookup [] nm = None"
| "lookup (e # es) nm = (if name e = nm then Some e else lookup es nm)"

text \<open>A sequence of registration calls, each given by its four arguments.\<close>

type_synonym ('s, 'd) registration =
  "string option \<times> string option \<times> int \<times> ('s, 'd) compositor_backend_ops option"

fun register_all :: "('s, 'd) registration list \<Rightarrow> ('s, 'd) registry \<Rightarrow> ('s, 'd) registry" where
  "register_all [] reg = reg"
| "register_all ((nm, descr, prio, ops_ptr) # calls) reg =
     register_all calls (snd (compositor_backend_register nm descr prio ops_ptr reg))"

subsection \<open>Selection\<close>

text \<open>
  The outcome of one search-and-initialise loop of \<open>select_backend\<close>, with the global
  state afterwards: a backend was built (\<open>return backend\<close>); its allocation failed
  (\<open>return NULL\<close> from inside the loop); or the loop was left without a backend, either by
  \<open>break\<close> after a failed \<open>init\<close> or because no slot carries the name.
\<close>

datatype ('s, 'd) attempt =
    Selected "('s, 'd) compositor_backend" 's
  | AllocFailed 's
  | Unavailable 's

text \<open>
  The body of the loop for the matching slot (lines 315--337, repeated at 347--368).
  \<open>alloc\<close> tells whether the \<open>calloc\<close> of the backend structure succeeds; a call of
  \<open>select_backend\<close> reaches at most one such \<open>calloc\<close>.
\<close>

definition initialize_entry ::
  "('s, 'd) backend_entry \<Rightarrow> bool \<Rightarrow> 's \<Rightarrow> ('s, 'd) attempt" where
  "initialize_entry e alloc st =
    (case init (ops e) st of
       (None, st') \<Rightarrow> Unavailable st'
     | (Some backend_data, st') \<Rightarrow>
         if \<not> alloc then AllocFailed (cleanup (ops e) backend_data st')
         else Selected
                \<lparr>name = name e, description = description e, priority = priority e,
                 ops = ops e, data = Some backend_data,
                 capabilities = get_capabilities (ops e) backend_data\<rparr> st')"

text \<open>The loop itself (lines 311--339 with the preferred name, 345--370 with "fallback").\<close>

fun try_backend ::
  "('s, 'd) registry \<Rightarrow> string \<Rightarrow> bool \<Rightarrow> 's \<Rightarrow> ('s, 'd) attempt" where
  "try_backend [] nm alloc st = Unavailable st"
| "try_backend (e # es) nm alloc st =
     (if name e = nm then initialize_entry e alloc st else try_backend es nm alloc st)"

text \<open>The \<open>switch\<close> on the compositor type (lines 277--308).\<close>

fun preferred_backend :: "compositor_info_t \<Rightarrow> string" where
  "preferred_backend info =
    (case info_type info of
       COMPOSITOR_TYPE_KDE_PLASMA \<Rightarrow> ''wlr-layer-shell''
     | COMPOSITOR_TYPE_HYPRLAND \<Rightarrow> ''wlr-layer-shell''
     | COMPOSITOR_TYPE_SWAY \<Rightarrow> ''wlr-layer-shell''
     | COMPOSITOR_TYPE_RIVER \<Rightarrow> ''wlr-layer-shell''
     | COMPOSITOR_TYPE_WAYFIRE \<Rightarrow> ''wlr-layer-shell''
     | COMPOSITOR_TYPE_GNOME_SHELL \<Rightarrow> ''gnome-shell''
     | COMPOSITOR_TYPE_MUTTER \<Rightarrow> ''gnome-shell''
     | _ \<Rightarrow> if info_has_layer_shell info then ''wlr-layer-shell'' else ''fallback'')"

text \<open>
  \<open>select_backend\<close> (lines 270--375). The result is the backend pointer (\<open>None\<close> when
  null) and the global state afterwards.
\<close>

definition select_backend ::
  "('s, 'd) registry \<Rightarrow> compositor_info_t \<Rightarrow> bool \<Rightarrow> 's
    \<Rightarrow> ('s, 'd) compositor_backend option \<times> 's" where
  "select_backend reg info alloc st =
    (let preferred = preferred_backend info in
     case try_backend reg preferred alloc st of
       Selected backend st' \<Rightarrow> (Some backend, st')
     | AllocFailed st' \<Rightarrow> (None, st')
     | Unavailable st' \<Rightarrow>
         if preferred \<noteq> ''fallback'' then
           (case try_backend reg ''fallback'' alloc st' of
              Selected backend st'' \<Rightarrow> (Some backend, st'')
            | AllocFailed st'' \<Rightarrow> (None, st'')
            | Unavailable st'' \<Rightarrow> (None, st''))
         else (None, st'))"

subsection \<open>Public entry points\<close>

text \<open>
  \<open>struct neowall_state\<close> is defined outside these sources; only its \<open>display\<close> pointer is
  read here, the remaining fields are the record's extension.
\<close>

record neowall_state =
  display :: "wl_display option"

text \<open>
  \<open>compositor_backend_init\<close> (lines 382--419). The state pointer is an option. The five
  calls \<open>compositor_backend_wlr_layer_shell_init\<close> \<dots> \<open>compositor_backend_fallback_init\<close>
  at lines 400--406 are defined in other files; their combined effect on the registry is
  the parameter \<open>register_backends\<close>. The result is the backend pointer, the registry
  and the state afterwards.
\<close>

definition compositor_backend_init ::
  "('z neowall_state_scheme \<Rightarrow> ('z neowall_state_scheme, 'd) registry
      \<Rightarrow> ('z neowall_state_scheme, 'd) registry)
    \<Rightarrow> environment \<Rightarrow> string option \<Rightarrow> bool
    \<Rightarrow> ('z neowall_state_scheme, 'd) registry \<Rightarrow> 'z neowall_state_scheme option
    \<Rightarrow> ('z neowall_state_scheme, 'd) compositor_backend option
        \<times> ('z neowall_state_scheme, 'd) registry \<times> 'z neowall_state_scheme option" where
  "compositor_backend_init register_backends env version alloc reg state =
    (case state of
       None \<Rightarrow> (None, reg, None)
     | Some st \<Rightarrow>
        (case display st of
           None \<Rightarrow> (None, reg, Some st)
         | Some dpy \<Rightarrow>
            (let info = compositor_detect env version dpy;
                 reg' = register_backends st reg;
                 (backend, st') = select_backend reg' info alloc st
             in (backend, reg', Some st'))))"

text \<open>
  \<open>compositor_backend_cleanup\<close> (lines 422--434): the result is the global state
  afterwards and whether the backend structure was freed. In the model the \<open>ops\<close> table
  and its \<open>cleanup\<close> entry are never null, so of the guard at line 429 only the test of
  \<open>data\<close> remains.
\<close>

definition compositor_backend_cleanup ::
  "('s, 'd) compositor_backend option \<Rightarrow> 's \<Rightarrow> 's \<times> bool" where
  "compositor_backend_cleanup backend st =
    (case backend of
       None \<Rightarrow> (st, False)
     | Some b \<Rightarrow>
        (case data b of
           Some d \<Rightarrow> (cleanup (ops b) d st, True)
         | None \<Rightarrow> (st, True)))"

definition compositor_backend_get_capabilities ::
  "('s, 'd) compositor_backend option \<Rightarrow> compositor_capabilities_t" where
  "compositor_backend_get_capabilities backend =
    (case backend of None \<Rightarrow> COMPOSITOR_CAP_NONE | Some b \<Rightarrow> capabilities b)"

section \<open>The X11 backend (backends/x11.c)\<close>

subsection \<open>Memory and the X connection\<close>

text \<open>
  Pointers to heap objects are addresses; a null pointer is \<open>None\<close>. The allocator is an
  oracle: the list holds the results of the successive \<open>calloc\<close> calls still to come, and
  an exhausted list means that every further allocation fails.
\<close>

type_synonym addr = nat

type_synonym heap = "addr option list"

fun calloc :: "heap \<Rightarrow> addr option \<times> heap" where
  "calloc [] = (None, [])"
| "calloc (r # rest) = (r, rest)"

text \<open>XCB constants used by the backend (from the XCB headers).\<close>

definition XCB_ATOM_NONE :: "32 word" where "XCB_ATOM_NONE = 0"
definition XCB_WINDOW_NONE :: "32 word" where "XCB_WINDOW_NONE = 0"
definition XCB_NONE :: "32 word" where "XCB_NONE = 0"
definition XCB_RANDR_CONNECTION_CONNECTED :: "8 word" where "XCB_RANDR_CONNECTION_CONNECTED = 0"

text \<open>The requests that the modelled functions send, with the arguments that vary.\<close>

datatype x_request =
    RandrSelectInput "32 word"
  | CreateWindow "32 word" "32 word" "16 word" "16 word" "16 word" "16 word"
  | ChangeProperty "32 word" "32 word" "32 word list"
  | SetWindowName "32 word" string
  | XFixesCreateRegion "32 word"
  | XFixesSetWindowShapeRegion "32 word" "32 word"
  | XFixesDestroyRegion "32 word"
  | MapWindow "32 word"
  | ConfigureWindow "32 word" "32 word" "32 word"
  | Flush

text \<open>
  The client side of the connection: the requests sent so far, oldest first, and the
  identifiers that the following \<open>xcb_generate_id\<close> calls return (\<open>-1\<close> once the supply is
  exhausted, as XCB does on failure).
\<close>

record xcb_connection =
  requests :: "x_request list"
  xids :: "32 word list"

definition send :: "xcb_connection \<Rightarrow> x_request list \<Rightarrow> xcb_connection" where
  "send c rs = c\<lparr>requests := requests c @ rs\<rparr>"

definition xcb_generate_id :: "xcb_connection \<Rightarrow> 32 word \<times> xcb_connection" where
  "xcb_generate_id c =
    (case xids c of [] \<Rightarrow> (- 1, c) | i # rest \<Rightarrow> (i, c\<lparr>xids := rest\<rparr>))"

record xcb_screen_t =
  root :: "32 word"
  width_in_pixels :: "16 word"
  height_in_pixels :: "16 word"
  black_pixel :: "32 word"
  root_visual :: "32 word"

record randr_output_info =
  connection :: "8 word"
  oi_crtc :: "32 word"
  oi_name :: string

record randr_crtc_info =
  ci_x :: "16 word"
  ci_y :: "16 word"
  ci_width :: "16 word"
  ci_height :: "16 word"

text \<open>
  What the X server and the client libraries answer: whether \<open>XOpenDisplay\<close> and
  \<open>XGetXCBConnection\<close> succeed, the default screen, the atom of each name
  (\<open>XCB_ATOM_NONE\<close> also when the reply is null), the presence of the RandR extension
  (with its first event code) and of XFixes, the replies of the three RandR queries
  (\<open>None\<close> for a null reply), and whether the server rejects the creation of a window of
  a given geometry.
\<close>

record x_server =
  open_display :: bool
  xcb_available :: bool
  default_screen_number :: nat
  default_screen :: xcb_screen_t
  intern_atom :: "string \<Rightarrow> 32 word"
  randr_ext :: "8 word option"
  xfixes_ext :: bool
  screen_resources :: "32 word list option"
  output_info :: "32 word \<Rightarrow> randr_output_info option"
  crtc_info :: "32 word \<Rightarrow> randr_crtc_info option"
  create_window_error :: "16 word \<Rightarrow> 16 word \<Rightarrow> 16 word \<Rightarrow> 16 word \<Rightarrow> bool"
  xid_supply :: "32 word list"

subsection \<open>Backend data\<close>

record x11_atoms_t =
  wm_protocols :: "32 word"
  wm_delete_window :: "32 word"
  net_wm_name :: "32 word"
  net_wm_window_type :: "32 word"
  net_wm_window_type_desktop :: "32 word"
  net_wm_state :: "32 word"
  net_wm_state_below :: "32 word"
  net_wm_state_sticky :: "32 word"
  utf8_string :: "32 word"

text \<open>
  \<open>x11_output_t\<close>. The C fields \<open>x\<close>, \<open>y\<close>, \<open>width\<close>, \<open>height\<close>, \<open>name\<close> and \<open>surface\<close>
  carry the prefix \<open>out_\<close>; \<open>out_addr\<close> is the address of the node itself and the \<open>next\<close>
  pointer is the order of the list that holds the nodes.
\<close>

record x11_output =
  out_addr :: addr
  output_id :: "32 word"
  crtc :: "32 word"
  out_x :: "16 word"
  out_y :: "16 word"
  out_width :: "16 word"
  out_height :: "16 word"
  out_name :: string
  out_surface :: "addr option"

text \<open>
  \<open>x11_backend_data_t\<close>. The connection is stored in place of the two pointers to it;
  the pointer to the global state is not followed by the functions below and is left out.
\<close>

record x11_backend_data_t =
  xcb_conn :: xcb_connection
  screen :: xcb_screen_t
  root_window :: "32 word"
  screen_number :: nat
  atoms :: x11_atoms_t
  has_randr :: bool
  has_shape :: bool
  has_xfixes :: bool
  randr_event_base :: "8 word"
  outputs :: "x11_output list"
  output_count :: "32 word"
  initialized :: bool

subsection \<open>Surfaces (compositor.h)\<close>

datatype compositor_layer_t =
    COMPOSITOR_LAYER_BACKGROUND
  | COMPOSITOR_LAYER_BOTTOM
  | COMPOSITOR_LAYER_TOP
  | COMPOSITOR_LAYER_OVERLAY

text \<open>
  \<open>compositor_surface_config_t\<close>; \<open>width\<close>, \<open>height\<close> and \<open>output\<close> carry the prefix
  \<open>cfg_\<close>. The two sizes are \<open>int32_t\<close>.
\<close>

record compositor_surface_config_t =
  layer :: compositor_layer_t
  anchor :: "32 word"
  exclusive_zone :: "32 word"
  keyboard_interactivity :: bool
  cfg_width :: "32 word"
  cfg_height :: "32 word"
  cfg_output :: "addr option"

text \<open>\<open>x11_surface_data_t\<close>; \<open>output\<close> and \<open>configured\<close> carry the prefix \<open>sd_\<close>.\<close>

record x11_surface_data_t =
  window :: "32 word"
  xlib_window :: "64 word"
  sd_output :: "addr option"
  mapped :: bool
  sd_configured :: bool

text \<open>
  \<open>struct compositor_surface\<close>, with the prefix \<open>surf_\<close> on the fields whose names are
  taken. \<open>backend_data\<close> holds the surface's \<open>x11_surface_data_t\<close> (or null), \<open>surf_backend\<close>
  is the back pointer to the \<open>compositor_backend\<close>. The three callback fields are never
  touched by the backend and are left out.
\<close>

record compositor_surface =
  wl_surface :: "addr option"
  egl_window :: "addr option"
  egl_surface :: "addr option"
  surf_output :: "addr option"
  surf_width :: "32 word"
  surf_height :: "32 word"
  surf_scale :: "32 word"
  surf_config :: compositor_surface_config_t
  configured :: bool
  committed :: bool
  backend_data :: "x11_surface_data_t option"
  surf_backend :: "addr option"

subsection \<open>Output detection\<close>

text \<open>\<open>x11_init_atoms\<close> (lines 130--142), with \<open>x11_get_atom\<close> folded into \<open>intern_atom\<close>.\<close>

definition x11_init_atoms :: "x_server \<Rightarrow> bool \<times> x11_atoms_t" where
  "x11_init_atoms X =
    (let a = \<lparr>wm_protocols = intern_atom X ''WM_PROTOCOLS'',
              wm_delete_window = intern_atom X ''WM_DELETE_WINDOW'',
              net_wm_name = intern_atom X ''_NET_WM_NAME'',
              net_wm_window_type = intern_atom X ''_NET_WM_WINDOW_TYPE'',
              net_wm_window_type_desktop = intern_atom X ''_NET_WM_WINDOW_TYPE_DESKTOP'',
              net_wm_state = intern_atom X ''_NET_WM_STATE'',
              net_wm_state_below = intern_atom X ''_NET_WM_STATE_BELOW'',
              net_wm_state_sticky = intern_atom X ''_NET_WM_STATE_STICKY'',
              utf8_string = intern_atom X ''UTF8_STRING''\<rparr>
     in (net_wm_window_type_desktop a \<noteq> XCB_ATOM_NONE, a))"

text \<open>\<open>x11_free_outputs\<close> (lines 153--162).\<close>

definition x11_free_outputs :: "x11_backend_data_t \<Rightarrow> x11_backend_data_t" where
  "x11_free_outputs backend = backend\<lparr>outputs := [], output_count := 0\<rparr>"

text \<open>
  The output built on the path without RandR (lines 169--176): a zeroed node at the
  origin with the size of the screen, named "screen".
\<close>

definition screen_output :: "addr \<Rightarrow> xcb_screen_t \<Rightarrow> x11_output" where
  "screen_output a scr =
    \<lparr>out_addr = a, output_id = 0, crtc = 0, out_x = 0, out_y = 0,
     out_width = width_in_pixels scr, out_height = height_in_pixels scr,
     out_name = ''screen'', out_surface = None\<rparr>"

text \<open>
  The name written by \<open>snprintf(output->name, 64, "%.*s", name_len, name)\<close>: the bytes of
  the reply up to a NUL byte, at most 63 of them.
\<close>

definition output_name :: "string \<Rightarrow> string" where
  "output_name bytes = take 63 (takeWhile (\<lambda>c. c \<noteq> CHR 0x00) bytes)"

text \<open>
  The loop over the RandR outputs (lines 206--264). Each \<open>continue\<close> goes on with the
  rest of the array; a new node is put in front of the list.
\<close>

fun detect_loop ::
  "x_server \<Rightarrow> 32 word list \<Rightarrow> heap \<Rightarrow> x11_backend_data_t \<Rightarrow> x11_backend_data_t \<times> heap" where
  "detect_loop X [] h backend = (backend, h)"
| "detect_loop X (oid # rest) h backend =
    (case output_info X oid of
       None \<Rightarrow> detect_loop X rest h backend
     | Some output_reply \<Rightarrow>
        if connection output_reply \<noteq> XCB_RANDR_CONNECTION_CONNECTED
           \<or> oi_crtc output_reply = XCB_NONE
        then detect_loop X rest h backend
        else
          (case crtc_info X (oi_crtc output_reply) of
             None \<Rightarrow> detect_loop X rest h backend
           | Some crtc_reply \<Rightarrow>
              (case calloc h of
                 (None, h') \<Rightarrow> detect_loop X rest h' backend
               | (Some a, h') \<Rightarrow>
                  detect_loop X rest h'
                    (backend\<lparr>outputs :=
                        \<lparr>out_addr = a, output_id = oid, crtc = oi_crtc output_reply,
                         out_x = ci_x crtc_reply, out_y = ci_y crtc_reply,
                         out_width = ci_width crtc_reply, out_height = ci_height crtc_reply,
                         out_name = output_name (oi_name output_reply),
                         out_surface = None\<rparr> # outputs backend,
                       output_count := output_count backend + 1\<rparr>))))"

text \<open>
  \<open>x11_detect_outputs\<close> (lines 164--269): the boolean result, the backend data and the
  allocator afterwards.
\<close>

definition x11_detect_outputs ::
  "x_server \<Rightarrow> heap \<Rightarrow> x11_backend_data_t \<Rightarrow> bool \<times> x11_backend_data_t \<times> heap" where
  "x11_detect_outputs X h backend =
    (if \<not> has_randr backend then
       (case calloc h of
          (None, h') \<Rightarrow> (False, backend, h')
        | (Some a, h') \<Rightarrow>
           (True, backend\<lparr>outputs := [screen_output a (screen backend)], output_count := 1\<rparr>, h'))
     else
       (case screen_resources X of
          None \<Rightarrow> (False, backend, h)
        | Some ids \<Rightarrow>
           (let (backend', h') = detect_loop X ids h (x11_free_outputs backend)
            in (output_count backend' \<noteq> 0, backend', h'))))"

subsection \<open>Backend operations\<close>

text \<open>
  \<open>x11_backend_init\<close> (lines 383--484). The argument \<open>state\<close> is the pointer to the global
  state, of which only nullness matters here. The result is the backend data, or \<open>None\<close>
  for the null pointer, and the allocator afterwards.
\<close>

definition x11_backend_init ::
  "x_server \<Rightarrow> heap \<Rightarrow> 's option \<Rightarrow> x11_backend_data_t option \<times> heap" where
  "x11_backend_init X h state =
    (case state of
       None \<Rightarrow> (None, h)
     | Some st \<Rightarrow>
        (case calloc h of
           (None, h1) \<Rightarrow> (None, h1)
         | (Some a, h1) \<Rightarrow>
            if \<not> open_display X then (None, h1)
            else if \<not> xcb_available X then (None, h1)
            else
              (let (atoms_ok, atms) = x11_init_atoms X in
               if \<not> atoms_ok then (None, h1)
               else
                 (let conn0 = \<lparr>requests = [], xids = xid_supply X\<rparr>;
                      scr = default_screen X;
                      backend =
                        \<lparr>xcb_conn =
                           (case randr_ext X of
                              Some ev \<Rightarrow> send conn0 [RandrSelectInput (root scr)]
                            | None \<Rightarrow> conn0),
                         screen = scr, root_window = root scr,
                         screen_number = default_screen_number X, atoms = atms,
                         has_randr = (randr_ext X \<noteq> None), has_shape = False,
                         has_xfixes = xfixes_ext X,
                         randr_event_base = (case randr_ext X of Some ev \<Rightarrow> ev | None \<Rightarrow> 0),
                         outputs = [], output_count = 0, initialized = False\<rparr>;
                      (detected, backend', h2) = x11_detect_outputs X h1 backend
                  in if \<not> detected then (None, h2)
                     else (Some (backend'\<lparr>initialized := True\<rparr>), h2)))))"

text \<open>
  \<open>x11_create_desktop_window\<close> (lines 275--377): the window identifier
  (\<open>XCB_WINDOW_NONE\<close> when the server reports an error) and the connection afterwards.
\<close>

definition x11_create_desktop_window ::
  "x_server \<Rightarrow> x11_backend_data_t \<Rightarrow> 16 word \<Rightarrow> 16 word \<Rightarrow> 16 word \<Rightarrow> 16 word
    \<Rightarrow> 32 word \<times> xcb_connection" where
  "x11_create_desktop_window X backend px py w h =
    (let (win, c1) = xcb_generate_id (xcb_conn backend);
         c2 = send c1 [CreateWindow win (root_window backend) px py w h]
     in if create_window_error X px py w h then (XCB_WINDOW_NONE, c2)
        else
          (let c3 = send c2
                 [ChangeProperty win (net_wm_window_type (atoms backend))
                    [net_wm_window_type_desktop (atoms backend)],
                  ChangeProperty win (net_wm_state (atoms backend))
                    [net_wm_state_below (atoms backend), net_wm_state_sticky (atoms backend)],
                  SetWindowName win ''NeoWall''];
               c4 = (if has_xfixes backend then
                       (let (region, c) = xcb_generate_id c3
                        in send c [XFixesCreateRegion region,
                                   XFixesSetWindowShapeRegion win region,
                                   XFixesDestroyRegion region])
                     else c3)
           in (win, send c4 [Flush])))"

text \<open>
  \<open>x11_create_surface\<close> (lines 506--588). The result is the address and contents of the
  new surface (\<open>None\<close> for a null result), the backend data and the allocator afterwards.
  \<open>width\<close> and \<open>height\<close> are \<open>uint16_t\<close> locals: the \<open>int32_t\<close> of the configuration is
  compared with 0 as a signed number and then truncated to 16 bits.
\<close>

definition x11_create_surface ::
  "x_server \<Rightarrow> heap \<Rightarrow> x11_backend_data_t option \<Rightarrow> compositor_surface_config_t option
    \<Rightarrow> (addr \<times> compositor_surface) option \<times> x11_backend_data_t option \<times> heap" where
  "x11_create_surface X h data_ptr config =
    (case data_ptr of
       None \<Rightarrow> (None, data_ptr, h)
     | Some backend \<Rightarrow>
        (case config of
           None \<Rightarrow> (None, data_ptr, h)
         | Some cfg \<Rightarrow>
            if \<not> initialized backend then (None, data_ptr, h)
            else
              (case outputs backend of
                 [] \<Rightarrow> (None, data_ptr, h)
               | out # others \<Rightarrow>
                  (case calloc h of
                     (None, h1) \<Rightarrow> (None, data_ptr, h1)
                   | (Some surface_addr, h1) \<Rightarrow>
                      (case calloc h1 of
                         (None, h2) \<Rightarrow> (None, data_ptr, h2)
                       | (Some surface_data_addr, h2) \<Rightarrow>
                          (let w = (if 0 <s cfg_width cfg then ucast (cfg_width cfg)
                                    else out_width out);
                               ht = (if 0 <s cfg_height cfg then ucast (cfg_height cfg)
                                     else out_height out);
                               (win, c) = x11_create_desktop_window X backend
                                            (out_x out) (out_y out) w ht
                           in if win = XCB_WINDOW_NONE
                              then (None, Some (backend\<lparr>xcb_conn := c\<rparr>), h2)
                              else
                                (Some (surface_addr,
                                   \<lparr>wl_surface = None, egl_window = None, egl_surface = None,
                                    surf_output = cfg_output cfg,
                                    surf_width = ucast w, surf_height = ucast ht,
                                    surf_scale = 1, surf_config = cfg,
                                    configured = False, committed = False,
                                    backend_data =
                                      Some \<lparr>window = win, xlib_window = ucast win,
                                            sd_output = Some (out_addr out),
                                            mapped = True, sd_configured = True\<rparr>,
                                    surf_backend = None\<rparr>),
                                 Some (backend
                                   \<lparr>xcb_conn := send c [MapWindow win, Flush],
                                    outputs := out\<lparr>out_surface := Some surface_addr\<rparr> # others\<rparr>),
                                 h2)))))))"

text \<open>
  A null pointer that the C code dereferences without a test: the behaviour is
  undefined, in practice the process is killed.
\<close>

datatype crash = NullPointerDereference

text \<open>
  \<open>x11_configure_surface\<close> (lines 616--650). The third argument is the backend data that
  \<open>surface->backend->data\<close> points to, \<open>None\<close> when \<open>surface->backend\<close> or that \<open>data\<close> is
  null; the function reads it without a test. The surface's own data is only read when
  the window is resized. The result is the returned boolean with the surface and the
  backend data afterwards.
\<close>

definition x11_configure_surface ::
  "compositor_surface option \<Rightarrow> compositor_surface_config_t option \<Rightarrow> x11_backend_data_t option
    \<Rightarrow> crash + (bool \<times> compositor_surface option \<times> x11_backend_data_t option)" where
  "x11_configure_surface surface config backend_ptr =
    (case surface of
       None \<Rightarrow> Inr (False, surface, backend_ptr)
     | Some s \<Rightarrow>
        (case config of
           None \<Rightarrow> Inr (False, surface, backend_ptr)
         | Some cfg \<Rightarrow>
            (case backend_ptr of
               None \<Rightarrow> Inl NullPointerDereference
             | Some backend \<Rightarrow>
                if cfg_width cfg \<noteq> surf_width s \<or> cfg_height cfg \<noteq> surf_height s then
                  (case backend_data s of
                     None \<Rightarrow> Inl NullPointerDereference
                   | Some surface_data \<Rightarrow>
                      Inr (True,
                           Some (s\<lparr>surf_config := cfg, surf_width := cfg_width cfg,
                                   surf_height := cfg_height cfg\<rparr>),
                           Some (backend\<lparr>xcb_conn :=
                                   send (xcb_conn backend)
                                     [ConfigureWindow (window surface_data)
                                        (cfg_width cfg) (cfg_height cfg), Flush]\<rparr>)))
                else
                  Inr (True, Some (s\<lparr>surf_config := cfg\<rparr>),
                       Some (backend\<lparr>xcb_conn := send (xcb_conn backend) [Flush]\<rparr>)))))"

text \<open>\<open>x11_get_capabilities\<close> (lines 697--707).\<close>

definition x11_get_capabilities :: "x11_backend_data_t option \<Rightarrow> compositor_capabilities_t" where
  "x11_get_capabilities data_ptr =
    (case data_ptr of
       None \<Rightarrow> COMPOSITOR_CAP_NONE
     | Some backend \<Rightarrow>
        if has_randr backend then COMPOSITOR_CAP_NONE OR COMPOSITOR_CAP_MULTI_OUTPUT
        else COMPOSITOR_CAP_NONE)"

section \<open>Concrete inputs\<close>

text \<open>
  The registries, compositor descriptions, X servers and surfaces at which the theorems
  below are instantiated. For \<open>ops_ok\<close> and \<open>ops_fail\<close> the global state is a counter
  of the \<open>init\<close> calls made so far: \<open>init\<close> of \<open>ops_ok\<close> succeeds, \<open>init\<close> of \<open>ops_fail\<close>
  returns null. \<open>ops_const\<close> succeeds for any type of state and leaves it unchanged.
\<close>

definition ops_ok :: "(nat, nat) compositor_backend_ops" where
  "ops_ok = \<lparr>init = (\<lambda>s. (Some s, Suc s)), cleanup = (\<lambda>d s. s),
             get_capabilities = (\<lambda>d. COMPOSITOR_CAP_NONE)\<rparr>"

definition ops_fail :: "(nat, nat) compositor_backend_ops" where
  "ops_fail = \<lparr>init = (\<lambda>s. (None, Suc s)), cleanup = (\<lambda>d s. s),
               get_capabilities = (\<lambda>d. COMPOSITOR_CAP_NONE)\<rparr>"

definition ops_const :: "('s, nat) compositor_backend_ops" where
  "ops_const = \<lparr>init = (\<lambda>s. (Some 0, s)), cleanup = (\<lambda>d s. s),
                get_capabilities = (\<lambda>d. COMPOSITOR_CAP_NONE)\<rparr>"

definition entry :: "string \<Rightarrow> int \<Rightarrow> (nat, nat) compositor_backend_ops \<Rightarrow> (nat, nat) backend_entry" where
  "entry nm prio table = \<lparr>name = nm, description = None, priority = prio, ops = table\<rparr>"

definition x11_entry :: "('s, nat) backend_entry" where
  "x11_entry = \<lparr>name = ''x11'', description = None, priority = 50, ops = ops_const\<rparr>"

definition fallback_entry :: "('s, nat) backend_entry" where
  "fallback_entry = \<lparr>name = ''fallback'', description = None, priority = 10, ops = ops_const\<rparr>"

definition full_registry :: "(nat, nat) registry" where
  "full_registry = map (\<lambda>c. entry [c] 0 ops_ok) ''abcdefghijklmnop''"

definition calls3 :: "(nat, nat) registration list" where
  "calls3 = [(Some ''fallback'', None, 10, Some ops_ok),
             (Some ''fallback'', Some ''second'', 99, Some ops_fail),
             (Some ''x11'', None, 50, Some ops_ok)]"

definition info_of :: "compositor_type_t \<Rightarrow> bool \<Rightarrow> compositor_info_t" where
  "info_of ty layer_shell = \<lparr>info_type = ty, info_name = compositor_type_to_string ty,
     info_version = ''unknown'', info_has_layer_shell = layer_shell,
     info_has_kde_shell = False, info_has_gtk_shell = False\<rparr>"

definition backend_of :: "(nat, nat) backend_entry \<Rightarrow> nat \<Rightarrow> (nat, nat) compositor_backend" where
  "backend_of e d = \<lparr>name = name e, description = description e, priority = priority e,
     ops = ops e, data = Some d, capabilities = get_capabilities (ops e) d\<rparr>"

definition reg_c1 :: "(nat, nat) registry" where
  "reg_c1 = [entry ''wlr-layer-shell'' 100 ops_fail, entry ''x11'' 50 ops_ok,
             entry ''fallback'' 10 ops_ok]"


definition example_screen :: xcb_screen_t where
  "example_screen = \<lparr>root = 0x100, width_in_pixels = 1920, height_in_pixels = 1080,
                      black_pixel = 0, root_visual = 0x21\<rparr>"

definition example_server :: x_server where
  "example_server =
    \<lparr>open_display = True, xcb_available = True, default_screen_number = 0,
     default_screen = example_screen, intern_atom = (\<lambda>n. 0x150),
     randr_ext = None, xfixes_ext = True, screen_resources = None,
     output_info = (\<lambda>i. None), crtc_info = (\<lambda>i. None),
     create_window_error = (\<lambda>px py w h. w = 0 \<or> h = 0),
     xid_supply = [0x400001, 0x400002, 0x400003, 0x400004]\<rparr>"

definition example_atoms :: x11_atoms_t where
  "example_atoms =
    \<lparr>wm_protocols = 0x150, wm_delete_window = 0x150, net_wm_name = 0x150,
     net_wm_window_type = 0x150, net_wm_window_type_desktop = 0x150, net_wm_state = 0x150,
     net_wm_state_below = 0x150, net_wm_state_sticky = 0x150, utf8_string = 0x150\<rparr>"

definition output_left :: x11_output where
  "output_left = \<lparr>out_addr = 2, output_id = 0x41, crtc = 0x3f, out_x = 0, out_y = 0,
     out_width = 1920, out_height = 1080, out_name = ''DP-1'', out_surface = None\<rparr>"

definition output_right :: x11_output where
  "output_right = \<lparr>out_addr = 3, output_id = 0x42, crtc = 0x40, out_x = 1920, out_y = 0,
     out_width = 2560, out_height = 1440, out_name = ''HDMI-1'', out_surface = None\<rparr>"

definition example_backend :: x11_backend_data_t where
  "example_backend =
    \<lparr>xcb_conn = \<lparr>requests = [], xids = [0x400001, 0x400002, 0x400003, 0x400004]\<rparr>,
     screen = example_screen, root_window = 0x100, screen_number = 0, atoms = example_atoms,
     has_randr = True, has_shape = False, has_xfixes = True, randr_event_base = 89,
     outputs = [output_right, output_left], output_count = 2, initialized = True\<rparr>"

definition example_config :: compositor_surface_config_t where
  "example_config = \<lparr>layer = COMPOSITOR_LAYER_BACKGROUND, anchor = 15, exclusive_zone = - 1,
     keyboard_interactivity = False, cfg_width = 0, cfg_height = 600, cfg_output = Some 77\<rparr>"

definition resize_config :: compositor_surface_config_t where
  "resize_config = example_config\<lparr>cfg_width := 800, cfg_height := 600\<rparr>"

definition example_surface :: compositor_surface where
  "example_surface =
    \<lparr>wl_surface = None, egl_window = None, egl_surface = None, surf_output = Some 77,
     surf_width = 2560, surf_height = 600, surf_scale = 1, surf_config = example_config,
     configured = False, committed = False,
     backend_data = Some \<lparr>window = 0x400001, xlib_window = 0x400001, sd_output = Some 3,
                          mapped = True, sd_configured = True\<rparr>,
     surf_backend = Some 50\<rparr>"

definition backend_after_create :: x11_backend_data_t where
  "backend_after_create = example_backend
     \<lparr>xcb_conn :=
        \<lparr>requests =
           [CreateWindow 0x400001 0x100 1920 0 2560 600,
            ChangeProperty 0x400001 0x150 [0x150],
            ChangeProperty 0x400001 0x150 [0x150, 0x150],
            SetWindowName 0x400001 ''NeoWall'',
            XFixesCreateRegion 0x400002,
            XFixesSetWindowShapeRegion 0x400001 0x400002,
            XFixesDestroyRegion 0x400002, Flush, MapWindow 0x400001, Flush],
         xids = [0x400003, 0x400004]\<rparr>,
      outputs := [output_right\<lparr>out_surface := Some 10\<rparr>, output_left]\<rparr>"

section \<open>Properties of the classifier\<close>

lemma hint_None [simp]: "hint None needle = False"
  by (simp add: hint_def)

lemma hint_Some [simp]: "hint (Some s) needle = strstr s needle"
  by (simp add: hint_def)

text \<open>
  Claim C3, as stated: whenever the environment names a known compositor, the classifier
  returns that identity, whatever the protocol flags. It fails: with
  \<open>XDG_CURRENT_DESKTOP=GNOME\<close> and the KDE shell global advertised, the environment names
  GNOME Shell but the classifier answers KDE Plasma, because the KDE test of the chain
  accepts the flag and precedes the GNOME test; in the same way \<open>XDG_CURRENT_DESKTOP=weston\<close>
  with the GTK shell global advertised yields GNOME Shell instead of Weston.
\<close>

theorem C3_environment_first_counterexample:
  "spec_environment_identity (env_unset\<lparr>XDG_CURRENT_DESKTOP := Some ''GNOME''\<rparr>)
     = Some COMPOSITOR_TYPE_GNOME_SHELL
   \<and> detect_compositor_type (env_unset\<lparr>XDG_CURRENT_DESKTOP := Some ''GNOME''\<rparr>)
        (proto_none\<lparr>has_kde_shell := True\<rparr>) = COMPOSITOR_TYPE_KDE_PLASMA
   \<and> spec_environment_identity (env_unset\<lparr>XDG_CURRENT_DESKTOP := Some ''weston''\<rparr>)
     = Some COMPOSITOR_TYPE_WESTON
   \<and> detect_compositor_type (env_unset\<lparr>XDG_CURRENT_DESKTOP := Some ''weston''\<rparr>)
        (proto_none\<lparr>has_gtk_shell := True\<rparr>) = COMPOSITOR_TYPE_GNOME_SHELL"
  by (simp add: spec_environment_identity_def detect_compositor_type_def env_unset_def
      proto_none_def)

text \<open>
  Claim C3, amended: the classifier is first-match-wins over the chain Hyprland, Sway,
  River, Wayfire, KDE, GNOME, Mutter, Weston, generic, unknown, where the KDE and GNOME
  steps accept either an environment hint or the shell's protocol flag. Hence an
  environment hint for Hyprland, Sway, River, Wayfire or KDE always decides the result; a
  GNOME hint decides it unless the KDE flag is set (then KDE Plasma); a Mutter or Weston
  hint decides it unless the KDE flag (then KDE Plasma) or the GTK flag (then GNOME Shell)
  is set; and with no environment hint the flags alone decide.
\<close>

theorem C3_first_match_order:
  "detect_compositor_type env proto =
    (case spec_environment_identity env of
       None \<Rightarrow> spec_protocol_identity proto
     | Some t \<Rightarrow>
        if t = COMPOSITOR_TYPE_HYPRLAND \<or> t = COMPOSITOR_TYPE_SWAY \<or> t = COMPOSITOR_TYPE_RIVER
           \<or> t = COMPOSITOR_TYPE_WAYFIRE \<or> t = COMPOSITOR_TYPE_KDE_PLASMA then t
        else if has_kde_shell proto then COMPOSITOR_TYPE_KDE_PLASMA
        else if t = COMPOSITOR_TYPE_GNOME_SHELL then t
        else if has_gtk_shell proto then COMPOSITOR_TYPE_GNOME_SHELL
        else t)"
  by (simp add: detect_compositor_type_def spec_environment_identity_def
      spec_protocol_identity_def Let_def)

theorem C3_first_match_order_witness:
  "detect_compositor_type (env_unset\<lparr>XDG_SESSION_DESKTOP := Some ''gnome-wayland''\<rparr>)
     (proto_none\<lparr>has_kde_shell := True, has_layer_shell := True\<rparr>) = COMPOSITOR_TYPE_KDE_PLASMA
   \<and> detect_compositor_type (env_unset\<lparr>WAYLAND_DISPLAY := Some ''hyprland-1''\<rparr>)
     (proto_none\<lparr>has_kde_shell := True\<rparr>) = COMPOSITOR_TYPE_HYPRLAND"
  using C3_first_match_order
          [of "env_unset\<lparr>XDG_SESSION_DESKTOP := Some ''gnome-wayland''\<rparr>"
              "proto_none\<lparr>has_kde_shell := True, has_layer_shell := True\<rparr>"]
        C3_first_match_order
          [of "env_unset\<lparr>WAYLAND_DISPLAY := Some ''hyprland-1''\<rparr>"
              "proto_none\<lparr>has_kde_shell := True\<rparr>"]
  by (simp add: spec_environment_identity_def env_unset_def proto_none_def)

text \<open>
  Claim C7: with the layer-shell flag set, neither desktop-shell flag set and no
  environment hint matching any known compositor, the classifier returns the generic
  wlroots identity.
\<close>

theorem C7_generic_wlroots:
  assumes "has_layer_shell proto"
    and "\<not> has_kde_shell proto" and "\<not> has_gtk_shell proto"
    and "spec_environment_identity env = None"
  shows "detect_compositor_type env proto = COMPOSITOR_TYPE_GENERIC"
  using assms
  by (simp add: detect_compositor_type_def spec_environment_identity_def Let_def
      split: if_splits)

theorem C7_generic_wlroots_witness:
  "has_layer_shell (proto_none\<lparr>has_layer_shell := True, has_viewporter := True\<rparr>)
   \<and> \<not> has_kde_shell (proto_none\<lparr>has_layer_shell := True, has_viewporter := True\<rparr>)
   \<and> \<not> has_gtk_shell (proto_none\<lparr>has_layer_shell := True, has_viewporter := True\<rparr>)
   \<and> spec_environment_identity
        (env_unset\<lparr>XDG_CURRENT_DESKTOP := Some ''labwc'', WAYLAND_DISPLAY := Some ''wayland-0''\<rparr>)
      = None
   \<and> detect_compositor_type
        (env_unset\<lparr>XDG_CURRENT_DESKTOP := Some ''labwc'', WAYLAND_DISPLAY := Some ''wayland-0''\<rparr>)
        (proto_none\<lparr>has_layer_shell := True, has_viewporter := True\<rparr>)
      = COMPOSITOR_TYPE_GENERIC"
proof -
  let ?p = "proto_none\<lparr>has_layer_shell := True, has_viewporter := True\<rparr>"
  let ?e = "env_unset\<lparr>XDG_CURRENT_DESKTOP := Some ''labwc'', WAYLAND_DISPLAY := Some ''wayland-0''\<rparr>"
  have a: "has_layer_shell ?p" and b: "\<not> has_kde_shell ?p" and c: "\<not> has_gtk_shell ?p"
    by (simp_all add: proto_none_def)
  have d: "spec_environment_identity ?e = None"
    by (simp add: spec_environment_identity_def env_unset_def)
  from C7_generic_wlroots [OF a b c d] a b c d show ?thesis by simp
qed

section \<open>Properties of the registry\<close>

lemma already_registered_iff: "already_registered reg nm \<longleftrightarrow> nm \<in> name ` set reg"
  by (induction reg) auto

lemma lookup_None_iff: "lookup reg nm = None \<longleftrightarrow> nm \<notin> name ` set reg"
  by (induction reg) auto

lemma lookup_Some_name: "lookup reg nm = Some e \<Longrightarrow> name e = nm \<and> e \<in> set reg"
  by (induction reg) (auto split: if_splits)

lemma lookup_append: "lookup (reg @ es) nm = (case lookup reg nm of Some e \<Rightarrow> Some e | None \<Rightarrow> lookup es nm)"
  by (induction reg) auto

lemma try_backend_lookup:
  "try_backend reg nm alloc st =
     (case lookup reg nm of None \<Rightarrow> Unavailable st | Some e \<Rightarrow> initialize_entry e alloc st)"
  by (induction reg) auto

lemma register_cases:
  "compositor_backend_register nm descr prio ops_ptr reg = (r, reg') \<Longrightarrow>
     (r \<noteq> Inr () \<and> reg' = reg) \<or>
     (r = Inr () \<and> length reg < MAX_BACKENDS \<and>
       (\<exists>n table. nm = Some n \<and> ops_ptr = Some table \<and> n \<notin> name ` set reg \<and>
          reg' = reg @ [\<lparr>name = n, description = descr, priority = prio, ops = table\<rparr>]))"
  by (auto simp: compositor_backend_register_def already_registered_iff
      split: option.splits if_splits)

lemma register_take:
  "take (length reg) (snd (compositor_backend_register nm descr prio ops_ptr reg)) = reg"
  by (auto simp: compositor_backend_register_def split: option.splits)

lemma register_length:
  "length reg \<le> length (snd (compositor_backend_register nm descr prio ops_ptr reg))"
  by (auto simp: compositor_backend_register_def split: option.splits)

lemma register_all_length: "length reg \<le> length (register_all calls reg)"
proof (induction calls arbitrary: reg)
  case Nil
  then show ?case by simp
next
  case (Cons c calls)
  obtain nm descr prio ops_ptr where c: "c = (nm, descr, prio, ops_ptr)"
    by (cases c) auto
  have "length reg \<le> length (snd (compositor_backend_register nm descr prio ops_ptr reg))"
    by (rule register_length)
  also have "\<dots> \<le> length (register_all calls (snd (compositor_backend_register nm descr prio ops_ptr reg)))"
    by (rule Cons.IH)
  finally show ?case by (simp add: c)
qed

lemma register_all_take: "take (length reg) (register_all calls reg) = reg"
proof (induction calls arbitrary: reg)
  case Nil
  then show ?case by simp
next
  case (Cons c calls)
  obtain nm descr prio ops_ptr where c: "c = (nm, descr, prio, ops_ptr)"
    by (cases c) auto
  let ?r = "snd (compositor_backend_register nm descr prio ops_ptr reg)"
  have le: "length reg \<le> length ?r" by (rule register_length)
  have "take (length reg) (register_all calls ?r)
        = take (length reg) (take (length ?r) (register_all calls ?r))"
    using le by (simp add: min_def)
  also have "\<dots> = take (length reg) ?r" by (simp only: Cons.IH)
  also have "\<dots> = reg" by (rule register_take)
  finally show ?case by (simp add: c)
qed

lemma lookup_take:
  "take (length reg) reg' = reg \<Longrightarrow> lookup reg nm = Some e \<Longrightarrow> lookup reg' nm = Some e"
proof -
  assume t: "take (length reg) reg' = reg" and l: "lookup reg nm = Some e"
  have "reg' = reg @ drop (length reg) reg'"
    using t by (metis append_take_drop_id)
  then have "lookup reg' nm = (case lookup reg nm of Some e \<Rightarrow> Some e | None \<Rightarrow> lookup (drop (length reg) reg') nm)"
    by (metis lookup_append)
  with l show ?thesis by simp
qed

lemma register_all_bound:
  "length reg \<le> MAX_BACKENDS \<Longrightarrow> length (register_all calls reg) \<le> MAX_BACKENDS"
proof (induction calls arbitrary: reg)
  case Nil
  then show ?case by simp
next
  case (Cons c calls)
  obtain nm descr prio ops_ptr where c: "c = (nm, descr, prio, ops_ptr)"
    by (cases c) auto
  have "length (snd (compositor_backend_register nm descr prio ops_ptr reg)) \<le> MAX_BACKENDS"
    using Cons.prems by (auto simp: compositor_backend_register_def split: option.splits)
  then show ?case using Cons.IH by (simp add: c)
qed



text \<open>
  Claim C6: a registration either fails and leaves the table unchanged or succeeds and
  appends exactly one descriptor at the end; the descriptors registered before stay in
  place unchanged. At capacity the call fails with \<open>RegistryFull\<close> and the size is
  unchanged. Registering a name that \<open>lookup\<close> already finds fails, and \<open>lookup\<close> still
  returns the first registration, also after any further sequence of registration calls.
  The table never exceeds the maximum count.
\<close>

theorem C6_append_only:
  "((\<not> register_succeeded (compositor_backend_register nm descr prio ops_ptr reg)
       \<and> snd (compositor_backend_register nm descr prio ops_ptr reg) = reg)
     \<or> (register_succeeded (compositor_backend_register nm descr prio ops_ptr reg)
       \<and> (\<exists>e. snd (compositor_backend_register nm descr prio ops_ptr reg) = reg @ [e])))
   \<and> take (length reg) (snd (compositor_backend_register nm descr prio ops_ptr reg)) = reg
   \<and> (MAX_BACKENDS \<le> length reg \<longrightarrow>
        fst (compositor_backend_register nm descr prio ops_ptr reg) = Inl RegistryFull
        \<and> length (snd (compositor_backend_register nm descr prio ops_ptr reg)) = length reg)
   \<and> (lookup reg n = Some first \<longrightarrow>
        \<not> register_succeeded (compositor_backend_register (Some n) descr prio ops_ptr reg)
        \<and> lookup (snd (compositor_backend_register (Some n) descr prio ops_ptr reg)) n
             = Some first)
   \<and> (lookup reg n = Some first \<longrightarrow> lookup (register_all calls reg) n = Some first)
   \<and> take (length reg) (register_all calls reg) = reg
   \<and> (length reg \<le> MAX_BACKENDS \<longrightarrow> length (register_all calls reg) \<le> MAX_BACKENDS)"
proof -
  obtain res reg' where rr: "compositor_backend_register nm descr prio ops_ptr reg = (res, reg')"
    by (cases "compositor_backend_register nm descr prio ops_ptr reg") auto
  have one: "(\<not> register_succeeded (compositor_backend_register nm descr prio ops_ptr reg)
       \<and> snd (compositor_backend_register nm descr prio ops_ptr reg) = reg)
     \<or> (register_succeeded (compositor_backend_register nm descr prio ops_ptr reg)
       \<and> (\<exists>e. snd (compositor_backend_register nm descr prio ops_ptr reg) = reg @ [e]))"
    using register_cases [OF rr] unfolding rr
    by (auto simp: register_succeeded_def split: sum.splits)
  have full: "MAX_BACKENDS \<le> length reg \<longrightarrow>
        fst (compositor_backend_register nm descr prio ops_ptr reg) = Inl RegistryFull
        \<and> length (snd (compositor_backend_register nm descr prio ops_ptr reg)) = length reg"
    by (simp add: compositor_backend_register_def)
  have dup: "lookup reg n = Some first \<longrightarrow>
        \<not> register_succeeded (compositor_backend_register (Some n) descr prio ops_ptr reg)
        \<and> lookup (snd (compositor_backend_register (Some n) descr prio ops_ptr reg)) n
             = Some first"
  proof
    assume l: "lookup reg n = Some first"
    then have "n \<in> name ` set reg"
      using lookup_None_iff [of reg n] by auto
    then have "already_registered reg n" by (simp add: already_registered_iff)
    then show "\<not> register_succeeded (compositor_backend_register (Some n) descr prio ops_ptr reg)
        \<and> lookup (snd (compositor_backend_register (Some n) descr prio ops_ptr reg)) n
             = Some first"
      using l
      by (auto simp: compositor_backend_register_def register_succeeded_def split: option.splits)
  qed
  have keep: "lookup reg n = Some first \<longrightarrow> lookup (register_all calls reg) n = Some first"
    using lookup_take [OF register_all_take] by blast
  show ?thesis
    using one full dup keep register_take [of reg nm descr prio ops_ptr]
      register_all_take [of reg calls] register_all_bound [of reg calls]
    by blast
qed

text \<open>C6 on a duplicate "fallback" registration and on the full registry.\<close>

theorem C6_append_only_witness:
  "lookup [entry ''fallback'' 10 ops_ok] ''fallback'' = Some (entry ''fallback'' 10 ops_ok)
   \<and> \<not> register_succeeded (compositor_backend_register (Some ''fallback'') (Some ''second'') 99
           (Some ops_fail) [entry ''fallback'' 10 ops_ok])
   \<and> lookup (snd (compositor_backend_register (Some ''fallback'') (Some ''second'') 99
           (Some ops_fail) [entry ''fallback'' 10 ops_ok])) ''fallback''
        = Some (entry ''fallback'' 10 ops_ok)
   \<and> lookup (register_all calls3 [entry ''fallback'' 10 ops_ok]) ''fallback''
        = Some (entry ''fallback'' 10 ops_ok)
   \<and> MAX_BACKENDS \<le> length full_registry
   \<and> length (snd (compositor_backend_register (Some ''x11'') None 50 (Some ops_ok) full_registry))
        = length full_registry
   \<and> length (register_all calls3 full_registry) \<le> MAX_BACKENDS"
proof -
  have l: "lookup [entry ''fallback'' 10 ops_ok] ''fallback'' = Some (entry ''fallback'' 10 ops_ok)"
    by (simp add: entry_def)
  have f: "MAX_BACKENDS \<le> length full_registry" "length full_registry \<le> MAX_BACKENDS"
    by (simp_all add: MAX_BACKENDS_def full_registry_def)
  show ?thesis
    using l f
      C6_append_only [of "Some ''fallback''" "Some ''second''" 99 "Some ops_fail"
        "[entry ''fallback'' 10 ops_ok]" "''fallback''" "entry ''fallback'' 10 ops_ok" calls3]
      C6_append_only [of "Some ''x11''" None 50 "Some ops_ok" full_registry "''x11''" _ calls3]
    by simp
qed

section \<open>Properties of the selector\<close>

lemma select_backend_unavailable:
  assumes "try_backend reg (preferred_backend info) alloc st = Unavailable st'"
  shows "select_backend reg info alloc st =
     (if preferred_backend info \<noteq> ''fallback'' then
        (case try_backend reg ''fallback'' alloc st' of
           Selected backend st'' \<Rightarrow> (Some backend, st'')
         | AllocFailed st'' \<Rightarrow> (None, st'')
         | Unavailable st'' \<Rightarrow> (None, st''))
      else (None, st'))"
  using assms by (simp add: select_backend_def Let_def del: preferred_backend.simps)

lemma select_backend_direct:
  assumes "preferred_backend info = ''fallback''"
  shows "select_backend reg info alloc st =
        (case try_backend reg ''fallback'' alloc st of
           Selected backend st'' \<Rightarrow> (Some backend, st'')
         | AllocFailed st'' \<Rightarrow> (None, st'')
         | Unavailable st'' \<Rightarrow> (None, st''))"
  using assms by (simp add: select_backend_def Let_def del: preferred_backend.simps split: attempt.splits)

text \<open>
  Claim C1: suppose the preferred name is not registered, or the \<open>init\<close> of the
  preferred backend returns null (leaving the global state \<open>st'\<close>). If the preferred name
  is not "fallback", the selector's result is the result of selecting "fallback" directly
  (that is, of a selection whose preferred name is "fallback") from \<open>st'\<close>; when "fallback"
  is registered and its \<open>init\<close> succeeds, that result is the fallback backend. If the
  fallback is not registered or its \<open>init\<close> returns null as well, or if the preferred name
  was "fallback" already, the selector returns null.
\<close>

theorem C1_fallback_equivalence:
  assumes pref: "(lookup reg (preferred_backend info) = None \<and> st' = st)
       \<or> (\<exists>e. lookup reg (preferred_backend info) = Some e \<and> init (ops e) st = (None, st'))"
    and direct: "preferred_backend fallback_info = ''fallback''"
  shows "(preferred_backend info \<noteq> ''fallback'' \<longrightarrow>
            select_backend reg info alloc st = select_backend reg fallback_info alloc st')
       \<and> (preferred_backend info = ''fallback'' \<longrightarrow>
            select_backend reg info alloc st = (None, st'))
       \<and> ((\<forall>f. lookup reg ''fallback'' = Some f \<longrightarrow> fst (init (ops f) st') = None) \<longrightarrow>
            fst (select_backend reg info alloc st) = None)
       \<and> (preferred_backend info \<noteq> ''fallback'' \<longrightarrow> alloc \<longrightarrow>
            lookup reg ''fallback'' = Some f \<longrightarrow> init (ops f) st' = (Some d, st'') \<longrightarrow>
            select_backend reg info alloc st =
              (Some \<lparr>name = ''fallback'', description = description f, priority = priority f,
                      ops = ops f, data = Some d,
                      capabilities = get_capabilities (ops f) d\<rparr>, st''))"
proof -
  have un: "try_backend reg (preferred_backend info) alloc st = Unavailable st'"
    using pref by (auto simp: try_backend_lookup initialize_entry_def simp del: preferred_backend.simps)
  note sel = select_backend_unavailable [OF un]
  have a: "preferred_backend info \<noteq> ''fallback'' \<longrightarrow>
            select_backend reg info alloc st = select_backend reg fallback_info alloc st'"
    using sel select_backend_direct [OF direct, of reg alloc st'] by simp
  have b: "preferred_backend info = ''fallback'' \<longrightarrow> select_backend reg info alloc st = (None, st')"
    using sel by simp
  have c: "(\<forall>f. lookup reg ''fallback'' = Some f \<longrightarrow> fst (init (ops f) st') = None) \<longrightarrow>
            fst (select_backend reg info alloc st) = None"
  proof
    assume h: "\<forall>f. lookup reg ''fallback'' = Some f \<longrightarrow> fst (init (ops f) st') = None"
    have "\<exists>s. try_backend reg ''fallback'' alloc st' = Unavailable s"
    proof (cases "lookup reg ''fallback''")
      case None
      then show ?thesis by (simp add: try_backend_lookup)
    next
      case (Some f)
      with h have "fst (init (ops f) st') = None" by simp
      then show ?thesis using Some
        by (cases "init (ops f) st'") (simp add: try_backend_lookup initialize_entry_def)
    qed
    then show "fst (select_backend reg info alloc st) = None"
      using sel by auto
  qed
  have d: "preferred_backend info \<noteq> ''fallback'' \<longrightarrow> alloc \<longrightarrow>
            lookup reg ''fallback'' = Some f \<longrightarrow> init (ops f) st' = (Some d, st'') \<longrightarrow>
            select_backend reg info alloc st =
              (Some \<lparr>name = ''fallback'', description = description f, priority = priority f,
                      ops = ops f, data = Some d,
                      capabilities = get_capabilities (ops f) d\<rparr>, st'')"
    using sel lookup_Some_name [of reg "''fallback''" f]
    by (auto simp: try_backend_lookup initialize_entry_def simp del: preferred_backend.simps)
  from a b c d show ?thesis by blast
qed

text \<open>
  C1 for a Sway session whose layer-shell backend fails to initialise: the result is the
  one of a direct fallback selection, and null when the fallback fails too.
\<close>

theorem C1_fallback_equivalence_witness:
  "lookup reg_c1 (preferred_backend (info_of COMPOSITOR_TYPE_SWAY True))
       = Some (entry ''wlr-layer-shell'' 100 ops_fail)
   \<and> init (ops (entry ''wlr-layer-shell'' 100 ops_fail)) 0 = (None, 1)
   \<and> preferred_backend (info_of COMPOSITOR_TYPE_UNKNOWN False) = ''fallback''
   \<and> select_backend reg_c1 (info_of COMPOSITOR_TYPE_SWAY True) True 0
       = select_backend reg_c1 (info_of COMPOSITOR_TYPE_UNKNOWN False) True 1
   \<and> select_backend reg_c1 (info_of COMPOSITOR_TYPE_SWAY True) True 0
       = (Some (backend_of (entry ''fallback'' 10 ops_ok) 1), 2)
   \<and> fst (select_backend [entry ''wlr-layer-shell'' 100 ops_fail, entry ''fallback'' 10 ops_fail]
            (info_of COMPOSITOR_TYPE_SWAY True) True 0) = None"
proof -
  have l: "lookup reg_c1 (preferred_backend (info_of COMPOSITOR_TYPE_SWAY True))
       = Some (entry ''wlr-layer-shell'' 100 ops_fail)"
    by (simp add: reg_c1_def info_of_def entry_def)
  have i: "init (ops (entry ''wlr-layer-shell'' 100 ops_fail)) 0 = (None, 1)"
    by (simp add: entry_def ops_fail_def)
  have p: "preferred_backend (info_of COMPOSITOR_TYPE_UNKNOWN False) = ''fallback''"
    by (simp add: info_of_def)
  have q: "preferred_backend (info_of COMPOSITOR_TYPE_SWAY True) \<noteq> ''fallback''"
    by (simp add: info_of_def)
  have f: "lookup reg_c1 ''fallback'' = Some (entry ''fallback'' 10 ops_ok)"
    by (simp add: reg_c1_def entry_def)
  have g: "init (ops (entry ''fallback'' 10 ops_ok)) 1 = (Some 1, 2)"
    by (simp add: entry_def ops_ok_def)
  have h1: "(lookup reg_c1 (preferred_backend (info_of COMPOSITOR_TYPE_SWAY True)) = None \<and> 1 = 0)
      \<or> (\<exists>e. lookup reg_c1 (preferred_backend (info_of COMPOSITOR_TYPE_SWAY True)) = Some e
             \<and> init (ops e) 0 = (None, 1))"
    using l i by simp
  let ?r2 = "[entry ''wlr-layer-shell'' 100 ops_fail, entry ''fallback'' 10 ops_fail]"
  have h2: "(lookup ?r2 (preferred_backend (info_of COMPOSITOR_TYPE_SWAY True)) = None \<and> 1 = 0)
      \<or> (\<exists>e. lookup ?r2 (preferred_backend (info_of COMPOSITOR_TYPE_SWAY True)) = Some e
             \<and> init (ops e) 0 = (None, 1))"
    by (simp add: info_of_def entry_def ops_fail_def)
  have n2: "\<forall>f. lookup ?r2 ''fallback'' = Some f \<longrightarrow> fst (init (ops f) 1) = None"
    by (simp add: entry_def ops_fail_def)
  note t1 = C1_fallback_equivalence [OF h1 p, of True "entry ''fallback'' 10 ops_ok" 1 2]
  note t2 = C1_fallback_equivalence [OF h2 p, of True]
  have a: "select_backend reg_c1 (info_of COMPOSITOR_TYPE_SWAY True) True 0
       = select_backend reg_c1 (info_of COMPOSITOR_TYPE_UNKNOWN False) True 1"
    using t1 q by blast
  have b: "select_backend reg_c1 (info_of COMPOSITOR_TYPE_SWAY True) True 0
       = (Some (backend_of (entry ''fallback'' 10 ops_ok) 1), 2)"
  proof -
    have "select_backend reg_c1 (info_of COMPOSITOR_TYPE_SWAY True) True 0 =
       (Some \<lparr>name = ''fallback'', description = description (entry ''fallback'' 10 ops_ok),
               priority = priority (entry ''fallback'' 10 ops_ok),
               ops = ops (entry ''fallback'' 10 ops_ok), data = Some 1,
               capabilities = get_capabilities (ops (entry ''fallback'' 10 ops_ok)) 1\<rparr>, 2)"
      using t1 q f g by blast
    then show ?thesis by (simp add: backend_of_def entry_def)
  qed
  have c: "fst (select_backend ?r2 (info_of COMPOSITOR_TYPE_SWAY True) True 0) = None"
    using t2 n2 by blast
  from l i p a b c show ?thesis by blast
qed







text \<open>
  Claim C10: \<open>compositor_backend_init\<close> returns null and leaves the registry unchanged
  when the state pointer is null or the state's display is null;
  \<open>compositor_backend_cleanup\<close> on a null backend changes nothing and frees nothing;
  \<open>compositor_backend_get_capabilities\<close> on a null backend returns the empty mask
  \<open>COMPOSITOR_CAP_NONE\<close>, which is 0.
\<close>

theorem C10_null_tolerant:
  fixes reg :: "('z neowall_state_scheme, 'd) registry"
    and gs :: "'z neowall_state_scheme"
  shows "compositor_backend_init register_backends env version alloc reg None = (None, reg, None)
   \<and> compositor_backend_init register_backends env version alloc reg (Some (st\<lparr>display := None\<rparr>))
       = (None, reg, Some (st\<lparr>display := None\<rparr>))
   \<and> compositor_backend_cleanup (None :: ('z neowall_state_scheme, 'd) compositor_backend option) gs
       = (gs, False)
   \<and> compositor_backend_get_capabilities
        (None :: ('z neowall_state_scheme, 'd) compositor_backend option) = COMPOSITOR_CAP_NONE
   \<and> COMPOSITOR_CAP_NONE = 0"
  by (simp add: compositor_backend_init_def compositor_backend_cleanup_def
      compositor_backend_get_capabilities_def COMPOSITOR_CAP_NONE_def)

text \<open>C10 at a concrete registry, with a registration step that would add the X11 backend.\<close>

theorem C10_null_tolerant_witness:
  "compositor_backend_init (\<lambda>s r. r @ [x11_entry]) env_unset None True [fallback_entry]
        (None :: neowall_state option)
     = (None, [fallback_entry], None)
   \<and> compositor_backend_init (\<lambda>s r. r @ [x11_entry]) env_unset None True [fallback_entry]
        (Some \<lparr>display = None\<rparr>)
     = (None, [fallback_entry], Some \<lparr>display = None\<rparr>)
   \<and> compositor_backend_cleanup (None :: (neowall_state, nat) compositor_backend option)
        \<lparr>display = Some \<lparr>registry_globals = None\<rparr>\<rparr>
     = (\<lparr>display = Some \<lparr>registry_globals = None\<rparr>\<rparr>, False)
   \<and> compositor_backend_get_capabilities (None :: (neowall_state, nat) compositor_backend option) = 0"
  using C10_null_tolerant [of "\<lambda>s r. r @ [x11_entry]" env_unset None True
      "[fallback_entry]" "\<lparr>display = None\<rparr>" "\<lparr>display = Some \<lparr>registry_globals = None\<rparr>\<rparr>"]
  by simp

section \<open>Properties of the X11 backend\<close>

text \<open>
  Claim C2, as stated: a failing RandR query degrades to the single synthetic output and
  never makes the initialisation of the backend fail. It fails: when the RandR extension
  is present and the screen-resources query has no reply, \<open>x11_detect_outputs\<close> returns
  false without producing any output and \<open>x11_backend_init\<close> returns null, while the same
  server without the extension initialises with the synthetic output.
\<close>

theorem C2_query_failure_counterexample:
  "screen_resources (example_server\<lparr>randr_ext := Some 89\<rparr>) = None
   \<and> x11_detect_outputs (example_server\<lparr>randr_ext := Some 89\<rparr>) [Some 2]
        (example_backend\<lparr>outputs := [], output_count := 0, initialized := False\<rparr>)
      = (False, example_backend\<lparr>outputs := [], output_count := 0, initialized := False\<rparr>, [Some 2])
   \<and> x11_backend_init (example_server\<lparr>randr_ext := Some 89\<rparr>) [Some 1, Some 2] (Some ())
      = (None, [Some 2])
   \<and> (\<exists>b. x11_backend_init example_server [Some 1, Some 2] (Some ()) = (Some b, [])
          \<and> outputs b = [screen_output 2 example_screen])"
  by (simp add: example_server_def example_backend_def x11_detect_outputs_def
      x11_backend_init_def x11_init_atoms_def XCB_ATOM_NONE_def send_def)

lemma detect_loop_all_fail:
  "\<forall>oid\<in>set ids. output_info X oid = None \<Longrightarrow> detect_loop X ids h b = (b, h)"
  by (induction ids) auto

text \<open>
  Claim C2, amended: the single synthetic output, at the origin and of the size of the
  primary screen, is produced when the RandR extension is absent, and detection then
  succeeds provided the allocation of the output does; the initialisation of the backend
  succeeds with exactly that output when the display, the connection, the desktop
  window-type atom and the two allocations are available. When the extension is present,
  a screen-resources
  query without reply makes \<open>x11_detect_outputs\<close> return false with the backend data
  unchanged, and \<open>x11_backend_init\<close> return null; when every per-output query fails,
  detection returns false with an empty output list.
\<close>

theorem C2_output_detection:
  "(\<not> has_randr b \<longrightarrow> calloc h = (Some a, h') \<longrightarrow>
      x11_detect_outputs X h b
        = (True, b\<lparr>outputs := [screen_output a (screen b)], output_count := 1\<rparr>, h'))
   \<and> (has_randr b \<longrightarrow> screen_resources X = None \<longrightarrow> x11_detect_outputs X h b = (False, b, h))
   \<and> (has_randr b \<longrightarrow> screen_resources X = Some ids \<longrightarrow>
        (\<forall>oid\<in>set ids. output_info X oid = None) \<longrightarrow>
        x11_detect_outputs X h b = (False, b\<lparr>outputs := [], output_count := 0\<rparr>, h))
   \<and> (randr_ext X \<noteq> None \<longrightarrow> screen_resources X = None \<longrightarrow>
        fst (x11_backend_init X h state) = None)
   \<and> (randr_ext X = None \<longrightarrow> open_display X \<longrightarrow> xcb_available X \<longrightarrow>
        intern_atom X ''_NET_WM_WINDOW_TYPE_DESKTOP'' \<noteq> XCB_ATOM_NONE \<longrightarrow>
        (\<exists>b'. x11_backend_init X (Some p # Some q # hr) (Some st) = (Some b', hr)
           \<and> outputs b' = [screen_output q (default_screen X)]
           \<and> output_count b' = 1 \<and> initialized b'))"
proof -
  have one: "\<not> has_randr b \<longrightarrow> calloc h = (Some a, h') \<longrightarrow>
      x11_detect_outputs X h b
        = (True, b\<lparr>outputs := [screen_output a (screen b)], output_count := 1\<rparr>, h')"
    by (simp add: x11_detect_outputs_def)
  have two: "has_randr b \<longrightarrow> screen_resources X = None \<longrightarrow> x11_detect_outputs X h b = (False, b, h)"
    by (simp add: x11_detect_outputs_def)
  have three: "has_randr b \<longrightarrow> screen_resources X = Some ids \<longrightarrow>
        (\<forall>oid\<in>set ids. output_info X oid = None) \<longrightarrow>
        x11_detect_outputs X h b = (False, b\<lparr>outputs := [], output_count := 0\<rparr>, h)"
    by (simp add: x11_detect_outputs_def detect_loop_all_fail x11_free_outputs_def)
  have four: "randr_ext X \<noteq> None \<longrightarrow> screen_resources X = None \<longrightarrow>
        fst (x11_backend_init X h state) = None"
    by (auto simp: x11_backend_init_def x11_detect_outputs_def Let_def
        split: option.splits prod.splits)
  have five: "randr_ext X = None \<longrightarrow> open_display X \<longrightarrow> xcb_available X \<longrightarrow>
        intern_atom X ''_NET_WM_WINDOW_TYPE_DESKTOP'' \<noteq> XCB_ATOM_NONE \<longrightarrow>
        (\<exists>b'. x11_backend_init X (Some p # Some q # hr) (Some st) = (Some b', hr)
           \<and> outputs b' = [screen_output q (default_screen X)]
           \<and> output_count b' = 1 \<and> initialized b')"
    by (simp add: x11_backend_init_def x11_detect_outputs_def x11_init_atoms_def Let_def)
  from one two three four five show ?thesis by blast
qed

text \<open>C2 amended, on a server without RandR and on servers whose RandR queries fail.\<close>

theorem C2_output_detection_witness:
  "x11_detect_outputs example_server [Some 5]
       (example_backend\<lparr>has_randr := False\<rparr>)
     = (True, example_backend\<lparr>has_randr := False,
                outputs := [screen_output 5 example_screen], output_count := 1\<rparr>, [])
   \<and> x11_detect_outputs example_server [Some 5] example_backend
     = (False, example_backend, [Some 5])
   \<and> x11_detect_outputs (example_server\<lparr>screen_resources := Some [0x41, 0x42]\<rparr>) [Some 5]
        example_backend
     = (False, example_backend\<lparr>outputs := [], output_count := 0\<rparr>, [Some 5])
   \<and> fst (x11_backend_init (example_server\<lparr>randr_ext := Some 89\<rparr>) [Some 1, Some 2] (Some ()))
     = None
   \<and> (\<exists>b'. x11_backend_init example_server [Some 1, Some 2] (Some ()) = (Some b', [])
         \<and> outputs b' = [screen_output 2 (default_screen example_server)]
         \<and> output_count b' = 1 \<and> initialized b')"
proof -
  note c1 = C2_output_detection [THEN conjunct1, rule_format]
  note c2 = C2_output_detection [THEN conjunct2, THEN conjunct1, rule_format]
  note c3 = C2_output_detection [THEN conjunct2, THEN conjunct2, THEN conjunct1, rule_format]
  note c4 = C2_output_detection
              [THEN conjunct2, THEN conjunct2, THEN conjunct2, THEN conjunct1, rule_format]
  note c5 = C2_output_detection
              [THEN conjunct2, THEN conjunct2, THEN conjunct2, THEN conjunct2, rule_format]
  have a: "x11_detect_outputs example_server [Some 5]
       (example_backend\<lparr>has_randr := False\<rparr>)
     = (True, example_backend\<lparr>has_randr := False,
                outputs := [screen_output 5 example_screen], output_count := 1\<rparr>, [])"
    using c1 [of "example_backend\<lparr>has_randr := False\<rparr>" "[Some 5]" 5 "[]" example_server]
    by (simp add: example_backend_def)
  have b: "x11_detect_outputs example_server [Some 5] example_backend
     = (False, example_backend, [Some 5])"
    using c2 [of example_backend example_server "[Some 5]"]
    by (simp add: example_backend_def example_server_def)
  have c: "x11_detect_outputs (example_server\<lparr>screen_resources := Some [0x41, 0x42]\<rparr>) [Some 5]
        example_backend
     = (False, example_backend\<lparr>outputs := [], output_count := 0\<rparr>, [Some 5])"
    using c3 [of example_backend "example_server\<lparr>screen_resources := Some [0x41, 0x42]\<rparr>"
                "[0x41, 0x42]" "[Some 5]"]
    by (simp add: example_backend_def example_server_def)
  have d: "fst (x11_backend_init (example_server\<lparr>randr_ext := Some 89\<rparr>) [Some 1, Some 2] (Some ()))
     = None"
    using c4 [of "example_server\<lparr>randr_ext := Some 89\<rparr>" "[Some 1, Some 2]" "Some ()"]
    by (simp add: example_server_def)
  have e: "\<exists>b'. x11_backend_init example_server [Some 1, Some 2] (Some ()) = (Some b', [])
         \<and> outputs b' = [screen_output 2 (default_screen example_server)]
         \<and> output_count b' = 1 \<and> initialized b'"
    using c5 [of example_server 1 2 "[]" "()"]
    by (simp add: example_server_def XCB_ATOM_NONE_def)
  from a b c d e show ?thesis by blast
qed

text \<open>
  Claim C8: when \<open>x11_configure_surface\<close> has returned for a surface and a configuration,
  it has succeeded, the surface holds that configuration and its width and height; a
  second call with the same configuration succeeds, returns the surface unchanged (width,
  height and stored configuration included) and sends nothing but a flush. The first
  call returns whenever the surface carries its backend data.
\<close>

theorem C8_configure_idempotent:
  "(x11_configure_surface (Some s) (Some cfg) (Some b) = Inr (ok, s1, b1) \<longrightarrow>
      ok \<and> (\<exists>s' b'. s1 = Some s' \<and> b1 = Some b'
             \<and> surf_config s' = cfg \<and> surf_width s' = cfg_width cfg
             \<and> surf_height s' = cfg_height cfg
             \<and> x11_configure_surface (Some s') (Some cfg) (Some b')
                  = Inr (True, Some s', Some (b'\<lparr>xcb_conn := send (xcb_conn b') [Flush]\<rparr>))))
   \<and> (backend_data s \<noteq> None \<longrightarrow>
        (\<exists>s' b'. x11_configure_surface (Some s) (Some cfg) (Some b) = Inr (True, Some s', Some b')))"
  by (auto simp: x11_configure_surface_def split: option.splits if_splits)

text \<open>C8 on a resize to 800x600: the second call sends no further resize request.\<close>

theorem C8_configure_idempotent_witness:
  "x11_configure_surface (Some example_surface) (Some resize_config) (Some example_backend)
     = Inr (True,
            Some (example_surface\<lparr>surf_config := resize_config, surf_width := 800\<rparr>),
            Some (example_backend\<lparr>xcb_conn :=
                    send (xcb_conn example_backend) [ConfigureWindow 0x400001 800 600, Flush]\<rparr>))
   \<and> x11_configure_surface
        (Some (example_surface\<lparr>surf_config := resize_config, surf_width := 800\<rparr>))
        (Some resize_config)
        (Some (example_backend\<lparr>xcb_conn :=
                 send (xcb_conn example_backend) [ConfigureWindow 0x400001 800 600, Flush]\<rparr>))
     = Inr (True,
            Some (example_surface\<lparr>surf_config := resize_config, surf_width := 800\<rparr>),
            Some (example_backend\<lparr>xcb_conn :=
                    send (xcb_conn example_backend)
                      [ConfigureWindow 0x400001 800 600, Flush, Flush]\<rparr>))"
proof -
  let ?s1 = "example_surface\<lparr>surf_config := resize_config, surf_width := 800\<rparr>"
  let ?b1 = "example_backend\<lparr>xcb_conn :=
                    send (xcb_conn example_backend) [ConfigureWindow 0x400001 800 600, Flush]\<rparr>"
  have first: "x11_configure_surface (Some example_surface) (Some resize_config)
      (Some example_backend) = Inr (True, Some ?s1, Some ?b1)"
    by (simp add: x11_configure_surface_def example_surface_def resize_config_def
        example_config_def)
  have "x11_configure_surface (Some ?s1) (Some resize_config) (Some ?b1)
      = Inr (True, Some ?s1, Some (?b1\<lparr>xcb_conn := send (xcb_conn ?b1) [Flush]\<rparr>))"
    using C8_configure_idempotent [of example_surface resize_config example_backend
        True "Some ?s1" "Some ?b1"] first
    by simp
  then have second: "x11_configure_surface (Some ?s1) (Some resize_config) (Some ?b1)
      = Inr (True, Some ?s1, Some (example_backend\<lparr>xcb_conn :=
                    send (xcb_conn example_backend)
                      [ConfigureWindow 0x400001 800 600, Flush, Flush]\<rparr>))"
    by (simp add: send_def)
  from first second show ?thesis by blast
qed

lemma xcb_generate_id_requests:
  "xcb_generate_id c = (i, c') \<Longrightarrow> requests c' = requests c"
  by (auto simp: xcb_generate_id_def split: list.splits)

lemma create_window_request:
  "x11_create_desktop_window X b px py w ht = (win, c) \<Longrightarrow> win \<noteq> XCB_WINDOW_NONE \<Longrightarrow>
     CreateWindow win (root_window b) px py w ht \<in> set (requests c)"
  by (auto simp: x11_create_desktop_window_def send_def Let_def
      split: prod.splits if_splits dest!: xcb_generate_id_requests)

lemma create_window_config_independent:
  "x11_create_surface X h (Some b) (Some (cfg\<lparr>cfg_output := t\<rparr>)) =
     (map_option (\<lambda>(a, s). (a, s\<lparr>surf_output := t, surf_config := cfg\<lparr>cfg_output := t\<rparr>\<rparr>))
        (fst (x11_create_surface X h (Some b) (Some cfg))),
      snd (x11_create_surface X h (Some b) (Some cfg)))"
  by (simp add: x11_create_surface_def Let_def split: list.splits option.splits prod.splits)

text \<open>
  Claim C9: with an empty output list \<open>x11_create_surface\<close> returns null. A surface that
  it returns is bound to the head of the output list: its window is created at that
  output's position, its width and height are those of the configuration when positive
  (truncated to 16 bits) and those of that output otherwise, in particular when the
  configuration says 0. The target output of the configuration has no influence beyond
  being stored in the surface and its configuration.
\<close>

theorem C9_first_output:
  "(outputs b = [] \<longrightarrow> fst (x11_create_surface X h (Some b) (Some cfg)) = None)
   \<and> (x11_create_surface X h (Some b) (Some cfg) = (Some (a, s), b', h') \<longrightarrow>
        (\<exists>out others win bk.
           outputs b = out # others \<and> b' = Some bk
           \<and> backend_data s = Some \<lparr>window = win, xlib_window = ucast win,
                                     sd_output = Some (out_addr out),
                                     mapped = True, sd_configured = True\<rparr>
           \<and> surf_width s = (if 0 <s cfg_width cfg
                              then ucast (ucast (cfg_width cfg) :: 16 word)
                              else ucast (out_width out))
           \<and> surf_height s = (if 0 <s cfg_height cfg
                               then ucast (ucast (cfg_height cfg) :: 16 word)
                               else ucast (out_height out))
           \<and> CreateWindow win (root_window b) (out_x out) (out_y out)
                (if 0 <s cfg_width cfg then ucast (cfg_width cfg) else out_width out)
                (if 0 <s cfg_height cfg then ucast (cfg_height cfg) else out_height out)
                \<in> set (requests (xcb_conn bk))
           \<and> outputs bk = out\<lparr>out_surface := Some a\<rparr> # others
           \<and> (cfg_width cfg = 0 \<longrightarrow> surf_width s = ucast (out_width out))
           \<and> (cfg_height cfg = 0 \<longrightarrow> surf_height s = ucast (out_height out))))
   \<and> x11_create_surface X h (Some b) (Some (cfg\<lparr>cfg_output := t\<rparr>)) =
       (map_option (\<lambda>(a, s). (a, s\<lparr>surf_output := t, surf_config := cfg\<lparr>cfg_output := t\<rparr>\<rparr>))
          (fst (x11_create_surface X h (Some b) (Some cfg))),
        snd (x11_create_surface X h (Some b) (Some cfg)))"
proof -
  have one: "outputs b = [] \<longrightarrow> fst (x11_create_surface X h (Some b) (Some cfg)) = None"
    by (simp add: x11_create_surface_def)
  have two: "x11_create_surface X h (Some b) (Some cfg) = (Some (a, s), b', h') \<longrightarrow>
        (\<exists>out others win bk.
           outputs b = out # others \<and> b' = Some bk
           \<and> backend_data s = Some \<lparr>window = win, xlib_window = ucast win,
                                     sd_output = Some (out_addr out),
                                     mapped = True, sd_configured = True\<rparr>
           \<and> surf_width s = (if 0 <s cfg_width cfg
                              then ucast (ucast (cfg_width cfg) :: 16 word)
                              else ucast (out_width out))
           \<and> surf_height s = (if 0 <s cfg_height cfg
                               then ucast (ucast (cfg_height cfg) :: 16 word)
                               else ucast (out_height out))
           \<and> CreateWindow win (root_window b) (out_x out) (out_y out)
                (if 0 <s cfg_width cfg then ucast (cfg_width cfg) else out_width out)
                (if 0 <s cfg_height cfg then ucast (cfg_height cfg) else out_height out)
                \<in> set (requests (xcb_conn bk))
           \<and> outputs bk = out\<lparr>out_surface := Some a\<rparr> # others
           \<and> (cfg_width cfg = 0 \<longrightarrow> surf_width s = ucast (out_width out))
           \<and> (cfg_height cfg = 0 \<longrightarrow> surf_height s = ucast (out_height out)))"
  proof
    assume r: "x11_create_surface X h (Some b) (Some cfg) = (Some (a, s), b', h')"
    show "\<exists>out others win bk.
           outputs b = out # others \<and> b' = Some bk
           \<and> backend_data s = Some \<lparr>window = win, xlib_window = ucast win,
                                     sd_output = Some (out_addr out),
                                     mapped = True, sd_configured = True\<rparr>
           \<and> surf_width s = (if 0 <s cfg_width cfg
                              then ucast (ucast (cfg_width cfg) :: 16 word)
                              else ucast (out_width out))
           \<and> surf_height s = (if 0 <s cfg_height cfg
                               then ucast (ucast (cfg_height cfg) :: 16 word)
                               else ucast (out_height out))
           \<and> CreateWindow win (root_window b) (out_x out) (out_y out)
                (if 0 <s cfg_width cfg then ucast (cfg_width cfg) else out_width out)
                (if 0 <s cfg_height cfg then ucast (cfg_height cfg) else out_height out)
                \<in> set (requests (xcb_conn bk))
           \<and> outputs bk = out\<lparr>out_surface := Some a\<rparr> # others
           \<and> (cfg_width cfg = 0 \<longrightarrow> surf_width s = ucast (out_width out))
           \<and> (cfg_height cfg = 0 \<longrightarrow> surf_height s = ucast (out_height out))"
    proof -
      from r obtain out others where o: "outputs b = out # others"
        by (auto simp: x11_create_surface_def split: list.splits if_splits)
      let ?w = "if 0 <s cfg_width cfg then ucast (cfg_width cfg) else out_width out"
      let ?ht = "if 0 <s cfg_height cfg then ucast (cfg_height cfg) else out_height out"
      obtain win c where cw:
        "x11_create_desktop_window X b (out_x out) (out_y out) ?w ?ht = (win, c)"
        by (cases "x11_create_desktop_window X b (out_x out) (out_y out) ?w ?ht") auto
      from r o cw have ok: "win \<noteq> XCB_WINDOW_NONE"
        by (auto simp: x11_create_surface_def Let_def
            split: option.splits prod.splits if_splits)
      from create_window_request [OF cw ok]
      have req: "CreateWindow win (root_window b) (out_x out) (out_y out) ?w ?ht
            \<in> set (requests c)" .
      from r o cw ok req show ?thesis
        by (auto simp: x11_create_surface_def Let_def send_def
            split: option.splits prod.splits if_splits)
    qed
  qed
  from one two create_window_config_independent [where X = X and h = h and b = b and cfg = cfg and t = t]
  show ?thesis by blast
qed

text \<open>
  C9 on a backend with two outputs and a configuration of width 0 that names some target
  output: the surface takes the position and the width of the head of the list.
\<close>

theorem C9_first_output_witness:
  "x11_create_surface example_server [Some 10, Some 11] (Some example_backend)
       (Some example_config)
     = (Some (10, example_surface\<lparr>surf_backend := None\<rparr>), Some backend_after_create, [])
   \<and> hd (outputs example_backend) = output_right
   \<and> cfg_width example_config = 0
   \<and> surf_width (example_surface\<lparr>surf_backend := None\<rparr>) = ucast (out_width output_right)
   \<and> CreateWindow 0x400001 0x100 (out_x output_right) (out_y output_right) 2560 600
        \<in> set (requests (xcb_conn backend_after_create))
   \<and> fst (x11_create_surface example_server [Some 10, Some 11]
            (Some (example_backend\<lparr>outputs := []\<rparr>)) (Some example_config)) = None
   \<and> fst (x11_create_surface example_server [Some 10, Some 11] (Some example_backend)
            (Some (example_config\<lparr>cfg_output := None\<rparr>)))
     = Some (10, example_surface\<lparr>surf_backend := None, surf_output := None,
                   surf_config := example_config\<lparr>cfg_output := None\<rparr>\<rparr>)"
proof -
  let ?s = "example_surface\<lparr>surf_backend := None\<rparr>"
  note c2 = C9_first_output [THEN conjunct2, THEN conjunct1, rule_format]
  have r: "x11_create_surface example_server [Some 10, Some 11] (Some example_backend)
       (Some example_config) = (Some (10, ?s), Some backend_after_create, [])"
    by (simp add: x11_create_surface_def x11_create_desktop_window_def xcb_generate_id_def
        send_def example_server_def example_backend_def example_config_def example_surface_def
        backend_after_create_def output_right_def output_left_def XCB_WINDOW_NONE_def
        example_atoms_def word_sless_alt)
  have hd_out: "hd (outputs example_backend) = output_right"
    by (simp add: example_backend_def)
  have z: "cfg_width example_config = 0"
    by (simp add: example_config_def)
  from c2 [OF r] obtain out others win bk where
    o: "outputs example_backend = out # others"
    and w: "cfg_width example_config = 0 \<longrightarrow> surf_width ?s = ucast (out_width out)"
    and q: "CreateWindow win (root_window example_backend) (out_x out) (out_y out)
              (if 0 <s cfg_width example_config then ucast (cfg_width example_config)
               else out_width out)
              (if 0 <s cfg_height example_config then ucast (cfg_height example_config)
               else out_height out) \<in> set (requests (xcb_conn bk))"
    and k: "Some backend_after_create = Some bk"
    and d: "backend_data ?s = Some \<lparr>window = win, xlib_window = ucast win,
              sd_output = Some (out_addr out), mapped = True, sd_configured = True\<rparr>"
    by blast
  from o hd_out have out: "out = output_right" by simp
  from w z out have sw: "surf_width ?s = ucast (out_width output_right)" by simp
  from d have win: "win = 0x400001" by (simp add: example_surface_def)
  from q k out win have cw: "CreateWindow 0x400001 0x100 (out_x output_right) (out_y output_right)
        2560 600 \<in> set (requests (xcb_conn backend_after_create))"
    by (simp add: example_config_def example_backend_def output_right_def word_sless_alt)
  have none: "fst (x11_create_surface example_server [Some 10, Some 11]
            (Some (example_backend\<lparr>outputs := []\<rparr>)) (Some example_config)) = None"
    using C9_first_output [where b = "example_backend\<lparr>outputs := []\<rparr>"
        and X = example_server and h = "[Some 10, Some 11]" and cfg = example_config,
        THEN conjunct1]
    by simp
  have indep: "fst (x11_create_surface example_server [Some 10, Some 11] (Some example_backend)
            (Some (example_config\<lparr>cfg_output := None\<rparr>)))
     = Some (10, example_surface\<lparr>surf_backend := None, surf_output := None,
                   surf_config := example_config\<lparr>cfg_output := None\<rparr>\<rparr>)"
    using C9_first_output [where X = example_server and h = "[Some 10, Some 11]"
        and b = example_backend and cfg = example_config and t = None,
        THEN conjunct2, THEN conjunct2] r
    by simp
  from r hd_out z sw cw none indep show ?thesis by blast
qed

end
